theory Spec2Isabelle
  imports Main "HOL-Library.Sublist" "HOL-Library.Multiset"
begin

section \<open>JoJo wellness chat: crisis detection and the message-send operation\<close>

text \<open>
  A shallow embedding of the crisis-detection pipeline of \<^verbatim>\<open>routes/jojo.js\<close> and of
  the completion adapter of \<^verbatim>\<open>services/aiService.js\<close>.

  Strings are lists of characters, one character per UTF-16 code unit, so that
  \<open>length\<close> is JavaScript's \<^verbatim>\<open>.length\<close>. The model covers the code units below 256
  (Basic Latin and Latin-1); on these \<^verbatim>\<open>toLowerCase\<close> and \<^verbatim>\<open>trim\<close> are as defined
  below. The source file holds the pictographs that decorate the fixed reply texts as
  mis-decoded runs of code units outside ASCII, some of them below 256; the text constants
  keep the ASCII code units of these texts and leave all the others out. No property below
  reads them.
\<close>

subsection \<open>String primitives\<close>

definition code :: "char \<Rightarrow> nat" where
  "code c = of_char c"

text \<open>\<^verbatim>\<open>String.prototype.toLowerCase\<close>: A-Z and the Latin-1 capitals (all of
  U+00C0..U+00DE but the multiplication sign U+00D7) move up by 32.\<close>

definition isUpperCase :: "char \<Rightarrow> bool" where
  "isUpperCase c =
     ((65 \<le> code c \<and> code c \<le> 90) \<or> (192 \<le> code c \<and> code c \<le> 222 \<and> code c \<noteq> 215))"

definition lowerChar :: "char \<Rightarrow> char" where
  "lowerChar c = (if isUpperCase c then char_of (code c + 32) else c)"

definition toLowerCase :: "string \<Rightarrow> string" where
  "toLowerCase s = map lowerChar s"

text \<open>\<^verbatim>\<open>String.prototype.toUpperCase\<close> on one character, as \<^verbatim>\<open>generateTitle\<close> uses it
  on the first character of the title. The small letters move down by 32; the sharp s
  U+00DF becomes the two characters SS. (U+00B5 and U+00FF have capitals outside the range
  of the model and are left as they are.)\<close>

definition isLowerCase :: "char \<Rightarrow> bool" where
  "isLowerCase c =
     ((97 \<le> code c \<and> code c \<le> 122) \<or> (224 \<le> code c \<and> code c \<le> 254 \<and> code c \<noteq> 247))"

definition upperChar :: "char \<Rightarrow> string" where
  "upperChar c =
     (if code c = 223 then ''SS''
      else if isLowerCase c then [char_of (code c - 32)]
      else [c])"

text \<open>\<^verbatim>\<open>String.prototype.includes\<close>: the search string occurs at some position.\<close>

fun includesStr :: "string \<Rightarrow> string \<Rightarrow> bool" where
  "includesStr [] k = (k = [])"
| "includesStr (c # cs) k = (prefix k (c # cs) \<or> includesStr cs k)"

text \<open>\<^verbatim>\<open>String.prototype.trim\<close>: white space and line terminators are removed at both
  ends. Below 256 these are TAB, LF, VT, FF, CR, SPACE and NBSP.\<close>

definition isWhiteSpace :: "char \<Rightarrow> bool" where
  "isWhiteSpace c = (code c \<in> {9, 10, 11, 12, 13, 32, 160})"

definition trim :: "string \<Rightarrow> string" where
  "trim s = rev (dropWhile isWhiteSpace (rev (dropWhile isWhiteSpace s)))"

text \<open>\<^verbatim>\<open>s.split(' ')\<close> and \<^verbatim>\<open>words.join(' ')\<close>.\<close>

fun splitSpaces :: "string \<Rightarrow> string list" where
  "splitSpaces [] = [ [] ]"
| "splitSpaces (c # cs) =
     (if c = CHR '' '' then [] # splitSpaces cs
      else (case splitSpaces cs of [] \<Rightarrow> [ [c] ] | w # ws \<Rightarrow> (c # w) # ws))"

fun joinSpaces :: "string list \<Rightarrow> string" where
  "joinSpaces [] = []"
| "joinSpaces [w] = w"
| "joinSpaces (w # ws) = w @ CHR '' '' # joinSpaces ws"

subsection \<open>Data model (Prisma schema)\<close>

datatype message_sender = USER | JOJO

datatype message_type =
  TEXT | SUGGESTION | EXERCISE | RECIPE | MENTAL_HEALTH | CRISIS_RESPONSE | GOAL_SETTING
  | PROGRESS_UPDATE

datatype crisis_risk_level = LOW | MEDIUM | HIGH | CRITICAL

text \<open>A JSON text column of the wellness profile. The profile route stores
  \<^verbatim>\<open>JSON.stringify\<close> of an array of strings, or the client's text as it came.
  \<open>StringArray\<close> is the former; \<open>Unparseable\<close> is text that \<^verbatim>\<open>JSON.parse\<close> rejects.
  Text that parses to a value of another shape is not covered. An absent column and the
  empty text, both falsy, are \<open>None\<close>.\<close>

datatype json_column = StringArray "string list" | Unparseable

record wellness_profile =
  wp_userId :: nat
  wp_region :: "string option"
  wp_healthGoals :: "json_column option"
  wp_dietaryRestrictions :: "json_column option"
  wp_crisisMonitoring :: bool

subsection \<open>Crisis keywords and region tables\<close>

definition HIGH_RISK :: "string list" where
  "HIGH_RISK =
     [''kill myself'', ''suicide'', ''end my life'', ''overdose'', ''hanging myself'',
      ''jump off'', ''better off dead'', ''end it all'', ''kill me'']"

definition MEDIUM_RISK :: "string list" where
  "MEDIUM_RISK =
     [''want to die'', ''hurt myself'', ''self harm'', ''cut myself'', ''suicidal'',
      ''self-harm'', ''harm myself'', ''hate myself'', ''worthless'', ''hopeless'',
      ''cannot go on'', ''give up on life'', ''not worth living'']"

definition LOW_RISK :: "string list" where
  "LOW_RISK =
     [''depressed'', ''sad all the time'', ''can't cope'', ''overwhelmed'',
      ''life is hard'', ''struggling'', ''feeling down'']"

text \<open>\<^verbatim>\<open>region?.toLowerCase() || ''\<close>\<close>

definition regionLower :: "string option \<Rightarrow> string" where
  "regionLower region = (case region of None \<Rightarrow> [] | Some r \<Rightarrow> toLowerCase r)"

definition nigeriaContacts :: string where
  "nigeriaContacts = concat
    ['' **Nigeria Emergency Contacts:**\<newline>'',
     ''- **Emergency Services:** 199, 911\<newline>'',
     ''- **Mental Health Helpline:** +234 809 210 6493\<newline>'',
     ''- **Lagos State Domestic & Sexual Violence Response Team:** 08000333333\<newline>'',
     ''- **Suicide Prevention:** Contact nearest hospital emergency room'']"

definition usaResources :: string where
  "usaResources = concat
    ['' **USA Crisis Resources:**\<newline>'',
     ''- **988 Suicide & Crisis Lifeline:** 988 (24/7)\<newline>'',
     ''- **Crisis Text Line:** Text HOME to 741741\<newline>'',
     ''- **National Domestic Violence Hotline:** 1-800-799-7233\<newline>'',
     ''- **Emergency Services:** 911'']"

definition ukResources :: string where
  "ukResources = concat
    ['' **UK Crisis Resources:**\<newline>'',
     ''- **Samaritans:** 116 123 (free, 24/7)\<newline>'',
     ''- **Crisis Text Line:** Text SHOUT to 85258\<newline>'',
     ''- **National Domestic Abuse Helpline:** 0808 2000 247\<newline>'',
     ''- **Emergency Services:** 999'']"

definition internationalResources :: string where
  "internationalResources = concat
    ['' **International Crisis Resources:**\<newline>'',
     ''- **International Association for Suicide Prevention:** https://www.iasp.info/resources/Crisis_Centres/\<newline>'',
     ''- **Befrienders Worldwide:** https://www.befrienders.org/\<newline>'',
     ''- **Emergency Services:** Contact your local emergency number'']"

definition highRiskOpening :: string where
  "highRiskOpening = concat
    ['' **URGENT: I'm deeply concerned about you**\<newline>'',
     ''\<newline>'',
     ''I hear that you're in significant emotional pain right now. Your life has value, and you deserve support and help.\<newline>'',
     ''\<newline>'',
     ''** IMMEDIATE HELP:**\<newline>'',
     ''Please reach out for professional support right now:\<newline>'']"

definition highRiskClosing :: string where
  "highRiskClosing = concat
    [''\<newline>'',
     ''\<newline>'',
     ''** IMMEDIATE SAFETY STEPS:**\<newline>'',
     ''1. **Stay with someone** - Don't be alone right now\<newline>'',
     ''2. **Remove any means of harm** - Ask someone to help\<newline>'',
     ''3. **Go to your nearest emergency room** if you're in immediate danger\<newline>'',
     ''4. **Call emergency services** if you need immediate help\<newline>'',
     ''\<newline>'',
     ''** YOU ARE NOT ALONE:**\<newline>'',
     ''- These feelings can change with proper help\<newline>'',
     ''- Mental health professionals are trained for exactly this\<newline>'',
     ''- Many people who felt this way found relief and meaning again\<newline>'',
     ''- Your pain is real, but it can be treated\<newline>'',
     ''\<newline>'',
     ''** PLEASE CALL ONE OF THE NUMBERS ABOVE RIGHT NOW**\<newline>'',
     ''\<newline>'',
     ''I'm an AI and cannot provide the emergency support you need, but human professionals are standing by 24/7 to help you through this crisis.\<newline>'',
     ''\<newline>'',
     ''Your life matters. You matter. Please reach out for help. \<newline>'',
     ''\<newline>'',
     '' **This is not a substitute for professional mental health care. Please contact emergency services or a crisis hotline immediately.**'']"

definition mediumRiskOpening :: string where
  "mediumRiskOpening = concat
    ['' **I'm concerned about you and want to help**\<newline>'',
     ''\<newline>'',
     ''It sounds like you're going through a really difficult time. Your feelings are valid, and there are people who want to support you.\<newline>'',
     ''\<newline>'',
     ''** Support Resources:**\<newline>'']"

definition mediumRiskClosing :: string where
  "mediumRiskClosing = concat
    [''\<newline>'',
     ''\<newline>'',
     ''** Immediate steps that might help:**\<newline>'',
     ''- Reach out to a trusted friend, family member, or counselor\<newline>'',
     ''- Consider professional support - therapy can be incredibly helpful\<newline>'',
     ''- Practice grounding techniques: deep breathing, name 5 things you can see\<newline>'',
     ''- Remember: difficult feelings are temporary and can change\<newline>'',
     ''\<newline>'',
     ''** You deserve support:**\<newline>'',
     ''- Your struggles are real and valid\<newline>'',
     ''- Professional help can provide tools and strategies\<newline>'',
     ''- Many people have worked through similar challenges\<newline>'',
     ''\<newline>'',
     ''If you're having thoughts of self-harm, please reach out to the crisis resources above immediately.\<newline>'',
     ''\<newline>'',
     '' **Please consider reaching out to a mental health professional for ongoing support.**'']"

definition lowRiskOpening :: string where
  "lowRiskOpening = concat
    ['' **I hear that you're having a tough time**\<newline>'',
     ''\<newline>'',
     ''It's completely normal to feel overwhelmed sometimes. Thank you for sharing - that takes courage.\<newline>'',
     ''\<newline>'',
     ''** Some things that might help:**\<newline>'',
     ''- Talk to someone you trust about how you're feeling\<newline>'',
     ''- Consider speaking with a counselor or therapist\<newline>'',
     ''- Practice self-care activities that usually help you feel better\<newline>'',
     ''- Remember that difficult periods don't last forever\<newline>'',
     ''\<newline>'',
     ''** If you need someone to talk to:**\<newline>'']"

definition lowRiskClosing :: string where
  "lowRiskClosing = concat
    [''\<newline>'',
     ''\<newline>'',
     ''** Gentle reminders:**\<newline>'',
     ''- Your feelings are valid\<newline>'',
     ''- It's okay to ask for help\<newline>'',
     ''- Taking care of your mental health is important\<newline>'',
     ''- Small steps forward still count as progress\<newline>'',
     ''\<newline>'',
     ''Is there something specific I can help you with today? I'm here to support your wellness journey.'']"

text \<open>The inner function \<^verbatim>\<open>getLocalHotlines\<close> of \<^verbatim>\<open>generateCrisisResponse\<close>: the block
  of contacts that is interpolated into the reply.\<close>

definition getLocalHotlines :: "string option \<Rightarrow> string" where
  "getLocalHotlines region =
     (let r = regionLower region in
      if includesStr r ''nigeria'' \<or> includesStr r ''ng'' then nigeriaContacts
      else if includesStr r ''usa'' \<or> includesStr r ''united states'' then usaResources
      else if includesStr r ''uk'' \<or> includesStr r ''united kingdom'' then ukResources
      else internationalResources)"

definition generateCrisisResponse :: "string option \<Rightarrow> crisis_risk_level \<Rightarrow> string" where
  "generateCrisisResponse region riskLevel =
     (if riskLevel = HIGH then highRiskOpening @ getLocalHotlines region @ highRiskClosing
      else if riskLevel = MEDIUM then
        mediumRiskOpening @ getLocalHotlines region @ mediumRiskClosing
      else lowRiskOpening @ getLocalHotlines region @ lowRiskClosing)"

definition getCrisisResources :: "string option \<Rightarrow> string list" where
  "getCrisisResources region =
     (if includesStr (regionLower region) ''nigeria'' then
        [''Crisis hotlines'', ''Emergency services (199, 911)'',
         ''Mental health professionals'', ''Hospital emergency rooms'',
         ''Lagos State DSVRT'', ''Community health centers'']
      else
        [''Crisis hotlines'', ''Emergency services'', ''Mental health professionals'',
         ''Hospital emergency rooms'', ''Community support services'',
         ''Online crisis chat services''])"

definition getCrisisHotlines :: "string option \<Rightarrow> string list" where
  "getCrisisHotlines region =
     (let r = regionLower region in
      if includesStr r ''nigeria'' then [''+234 809 210 6493'', ''199'', ''911'', ''08000333333'']
      else if includesStr r ''usa'' then [''988'', ''741741'', ''911'', ''1-800-799-7233'']
      else if includesStr r ''uk'' then [''116 123'', ''85258'', ''999'', ''0808 2000 247'']
      else if includesStr r ''canada'' then [''1-833-456-4566'', ''45645'', ''911'']
      else [''Local emergency services''])"

subsection \<open>The keyword risk classifier\<close>

text \<open>The object \<^verbatim>\<open>detectCrisis\<close> returns: \<^verbatim>\<open>{ isCrisis: false }\<close>, or the risk level with
  the matched keywords, the rendered reply, the resources and the hotlines.\<close>

datatype crisis_detection =
  NoCrisis
  | Crisis (cd_riskLevel: crisis_risk_level) (cd_keywords: "string list")
      (cd_response: string) (cd_resources: "string list") (cd_hotlines: "string list")

fun isCrisis :: "crisis_detection \<Rightarrow> bool" where
  "isCrisis NoCrisis = False"
| "isCrisis (Crisis r ks t rs hs) = True"

text \<open>\<^verbatim>\<open>profile?.region\<close>\<close>

definition profileRegion :: "wellness_profile option \<Rightarrow> string option" where
  "profileRegion profile = (case profile of None \<Rightarrow> None | Some p \<Rightarrow> wp_region p)"

definition crisisResult ::
  "crisis_risk_level \<Rightarrow> string list \<Rightarrow> wellness_profile option \<Rightarrow> crisis_detection" where
  "crisisResult level found profile =
     Crisis level found (generateCrisisResponse (profileRegion profile) level)
       (getCrisisResources (profileRegion profile)) (getCrisisHotlines (profileRegion profile))"

definition detectCrisis :: "string \<Rightarrow> wellness_profile option \<Rightarrow> crisis_detection" where
  "detectCrisis message profile =
     (let lowerMessage = toLowerCase message;
          highRiskFound = filter (\<lambda>keyword. includesStr lowerMessage keyword) HIGH_RISK
      in if length highRiskFound > 0 then crisisResult HIGH highRiskFound profile
         else
           let mediumRiskFound = filter (\<lambda>keyword. includesStr lowerMessage keyword) MEDIUM_RISK
           in if length mediumRiskFound > 0 then crisisResult MEDIUM mediumRiskFound profile
              else
                let lowRiskFound = filter (\<lambda>keyword. includesStr lowerMessage keyword) LOW_RISK
                in if length lowRiskFound > 0 then crisisResult LOW lowRiskFound profile
                   else NoCrisis)"

subsection \<open>Stored rows and the state of the world\<close>

record chat_conversation =
  cv_id :: nat
  cv_userId :: nat
  cv_title :: string
  cv_lastMessageAt :: "nat option"

text \<open>\<open>cm_confidence\<close> is in hundredths; \<open>cm_triggerKeywords\<close> is the list whose
  \<^verbatim>\<open>JSON.stringify\<close> the column stores.\<close>

record chat_message =
  cm_id :: nat
  cm_conversationId :: nat
  cm_userId :: nat
  cm_content :: string
  cm_sender :: message_sender
  cm_messageType :: message_type
  cm_responseTime :: "nat option"
  cm_confidence :: "nat option"
  cm_triggerKeywords :: "string list option"
  cm_createdAt :: nat

record crisis_log =
  cl_id :: nat
  cl_userId :: nat
  cl_messageId :: "nat option"
  cl_triggerContent :: string
  cl_keywords :: "string list"
  cl_riskLevel :: crisis_risk_level
  cl_responseGiven :: string
  cl_resourcesShared :: "string list"
  cl_userRegion :: "string option"
  cl_hotlinesProvided :: "string list"
  cl_followUpNeeded :: bool
  cl_adminNotified :: bool

record chat_analytics =
  ca_userId :: nat
  ca_date :: nat
  ca_messagesCount :: nat
  ca_conversationTime :: nat

text \<open>What the completion provider is sent: the system message (the text
  \<^verbatim>\<open>createSystemPrompt\<close> renders from the profile, kept symbolic here) and the turns
  with their role and content.\<close>

datatype prompt_message = SystemPrompt "wellness_profile option" | Turn string string

datatype completion_outcome = Completion string | ProviderError string

type_synonym completion_provider = "prompt_message list \<Rightarrow> completion_outcome"

text \<open>The tables in creation order, a logical clock that gives every write its identifier
  and timestamp, and the log of the requests sent to the completion provider. Every store
  operation succeeds: a failing store, which the route answers with status 500, is not
  modelled.\<close>

record world =
  chatConversations :: "chat_conversation list"
  chatMessages :: "chat_message list"
  wellnessProfiles :: "wellness_profile list"
  crisisLogs :: "crisis_log list"
  chatAnalyticsRows :: "chat_analytics list"
  clock :: nat
  completionCalls :: "prompt_message list list"

text \<open>What the request handler reads from its environment: the measured
  \<^verbatim>\<open>Date.now() - startTime\<close> in milliseconds, the calendar day, and the locale date text.\<close>

record environment =
  env_responseTime :: nat
  env_today :: nat
  env_localeDate :: string

subsection \<open>Store operations\<close>

definition findConversation :: "nat \<Rightarrow> nat \<Rightarrow> world \<Rightarrow> chat_conversation option" where
  "findConversation conversationId userId w =
     find (\<lambda>c. cv_id c = conversationId \<and> cv_userId c = userId) (chatConversations w)"

definition createConversation :: "nat \<Rightarrow> string \<Rightarrow> world \<Rightarrow> chat_conversation \<times> world" where
  "createConversation userId title w =
     (let c = \<lparr>cv_id = clock w, cv_userId = userId, cv_title = title,
                cv_lastMessageAt = Some (clock w)\<rparr>
      in (c, w\<lparr>chatConversations := chatConversations w @ [c], clock := Suc (clock w)\<rparr>))"

definition createMessage ::
  "nat \<Rightarrow> nat \<Rightarrow> string \<Rightarrow> message_sender \<Rightarrow> message_type \<Rightarrow> nat option \<Rightarrow> nat option \<Rightarrow>
   string list option \<Rightarrow> world \<Rightarrow> chat_message \<times> world" where
  "createMessage conversationId userId content sender messageType responseTime confidence
     triggerKeywords w =
     (let m = \<lparr>cm_id = clock w, cm_conversationId = conversationId, cm_userId = userId,
                cm_content = content, cm_sender = sender, cm_messageType = messageType,
                cm_responseTime = responseTime, cm_confidence = confidence,
                cm_triggerKeywords = triggerKeywords, cm_createdAt = clock w\<rparr>
      in (m, w\<lparr>chatMessages := chatMessages w @ [m], clock := Suc (clock w)\<rparr>))"

definition findProfile :: "nat \<Rightarrow> world \<Rightarrow> wellness_profile option" where
  "findProfile userId w = find (\<lambda>p. wp_userId p = userId) (wellnessProfiles w)"

text \<open>\<^verbatim>\<open>findMany({ where: { conversationId }, orderBy: { createdAt: 'desc' }, take: 10 })\<close>\<close>

definition recentMessages :: "nat \<Rightarrow> world \<Rightarrow> chat_message list" where
  "recentMessages conversationId w =
     take 10 (rev (sort_key cm_createdAt
       (filter (\<lambda>m. cm_conversationId m = conversationId) (chatMessages w))))"

definition createCrisisLog ::
  "nat \<Rightarrow> nat \<Rightarrow> string \<Rightarrow> string list \<Rightarrow> crisis_risk_level \<Rightarrow> string \<Rightarrow> string list \<Rightarrow>
   string option \<Rightarrow> string list \<Rightarrow> world \<Rightarrow> crisis_log \<times> world" where
  "createCrisisLog userId messageId triggerContent keywords riskLevel responseGiven
     resourcesShared userRegion hotlinesProvided w =
     (let l = \<lparr>cl_id = clock w, cl_userId = userId, cl_messageId = Some messageId,
                cl_triggerContent = triggerContent, cl_keywords = keywords,
                cl_riskLevel = riskLevel, cl_responseGiven = responseGiven,
                cl_resourcesShared = resourcesShared, cl_userRegion = userRegion,
                cl_hotlinesProvided = hotlinesProvided,
                cl_followUpNeeded = (riskLevel = HIGH),
                cl_adminNotified = (riskLevel = HIGH)\<rparr>
      in (l, w\<lparr>crisisLogs := crisisLogs w @ [l], clock := Suc (clock w)\<rparr>))"

definition touchConversation :: "nat \<Rightarrow> world \<Rightarrow> world" where
  "touchConversation conversationId w =
     w\<lparr>chatConversations :=
         map (\<lambda>c. if cv_id c = conversationId then c\<lparr>cv_lastMessageAt := Some (clock w)\<rparr> else c)
           (chatConversations w),
       clock := Suc (clock w)\<rparr>"

text \<open>\<^verbatim>\<open>Math.ceil(responseTime / 1000 / 60)\<close>\<close>

definition minutesOf :: "nat \<Rightarrow> nat" where
  "minutesOf responseTime = (responseTime + 59999) div 60000"

definition isAnalyticsRow :: "nat \<Rightarrow> nat \<Rightarrow> chat_analytics \<Rightarrow> bool" where
  "isAnalyticsRow userId date a = (ca_userId a = userId \<and> ca_date a = date)"

definition upsertAnalytics :: "nat \<Rightarrow> nat \<Rightarrow> nat \<Rightarrow> world \<Rightarrow> world" where
  "upsertAnalytics userId date responseTime w =
     (if list_ex (isAnalyticsRow userId date) (chatAnalyticsRows w) then
        w\<lparr>chatAnalyticsRows :=
            map (\<lambda>a. if isAnalyticsRow userId date a
                      then a\<lparr>ca_messagesCount := ca_messagesCount a + 1,
                             ca_conversationTime := ca_conversationTime a + minutesOf responseTime\<rparr>
                      else a)
              (chatAnalyticsRows w)\<rparr>
      else
        w\<lparr>chatAnalyticsRows := chatAnalyticsRows w @
            [\<lparr>ca_userId = userId, ca_date = date, ca_messagesCount = 1,
              ca_conversationTime = minutesOf responseTime\<rparr>]\<rparr>)"

text \<open>The day's message count of a user; no row counts as zero.\<close>

definition messagesCountOn :: "nat \<Rightarrow> nat \<Rightarrow> world \<Rightarrow> nat" where
  "messagesCountOn userId date w =
     (case find (isAnalyticsRow userId date) (chatAnalyticsRows w) of
        None \<Rightarrow> 0 | Some a \<Rightarrow> ca_messagesCount a)"

subsection \<open>The completion adapter (aiService.js)\<close>

record ai_response =
  ar_content :: string
  ar_type :: string
  ar_confidence :: nat
  ar_keywords :: "string list"

text \<open>\<^verbatim>\<open>history.slice(-5)\<close> and the shortening of each turn.\<close>

definition lastFive :: "'a list \<Rightarrow> 'a list" where
  "lastFive xs = drop (length xs - 5) xs"

definition formatTurn :: "chat_message \<Rightarrow> prompt_message" where
  "formatTurn msg =
     Turn (if cm_sender msg = USER then ''user'' else ''assistant'')
          (if length (cm_content msg) > 1000 then take 1000 (cm_content msg) @ ''...''
           else cm_content msg)"

definition formatConversationHistory :: "chat_message list \<Rightarrow> prompt_message list" where
  "formatConversationHistory history = map formatTurn (lastFive history)"

definition includesAny :: "string \<Rightarrow> string list \<Rightarrow> bool" where
  "includesAny s ks = list_ex (includesStr s) ks"

text \<open>The type tag of \<^verbatim>\<open>analyzeResponse\<close>: each later rule that fires overwrites the tag.\<close>

definition analyzeType :: "string \<Rightarrow> string \<Rightarrow> string" where
  "analyzeType response userInput =
     (let input = toLowerCase userInput;
          content = toLowerCase response;
          t0 = ''SUGGESTION'';
          t1 = (if includesAny content [''workout'', ''exercise'', ''training'', ''fitness'']
                then ''EXERCISE'' else t0);
          t2 = (if includesAny content
                     [''nutrition'', ''meal'', ''diet'', ''food'', ''recipe'', ''calories'']
                then ''NUTRITION'' else t1);
          t3 = (if includesAny content
                     [''stress'', ''anxiety'', ''mental'', ''meditation'', ''mindfulness'']
                then ''MENTAL_HEALTH'' else t2);
          t4 = (if includesAny content [''sleep'', ''rest'', ''recovery''] then ''SLEEP'' else t3)
      in if includesAny input [''hello'', ''hi'', ''hey''] then ''GREETING'' else t4)"

text \<open>The keyword expression of \<^verbatim>\<open>analyzeResponse\<close> matches a listed word between two
  word boundaries, ignoring case. Every listed word consists of word characters, so a
  match is a maximal run of word characters of the input that is a listed word; the
  matches are put in lower case and the first occurrence of each is kept.\<close>

definition isWordChar :: "char \<Rightarrow> bool" where
  "isWordChar c =
     ((48 \<le> code c \<and> code c \<le> 57) \<or> (65 \<le> code c \<and> code c \<le> 90) \<or> code c = 95
      \<or> (97 \<le> code c \<and> code c \<le> 122))"

fun wordRuns :: "string \<Rightarrow> string \<Rightarrow> string list" where
  "wordRuns cur [] = (if cur = [] then [] else [cur])"
| "wordRuns cur (c # cs) =
     (if isWordChar c then wordRuns (cur @ [c]) cs
      else (if cur = [] then [] else [cur]) @ wordRuns [] cs)"

definition topicWords :: "string list" where
  "topicWords =
     [''weight'', ''loss'', ''muscle'', ''fitness'', ''nutrition'', ''stress'', ''anxiety'',
      ''sleep'', ''workout'', ''exercise'', ''diet'', ''mental'', ''health'', ''meditation'',
      ''yoga'', ''strength'', ''cardio'', ''protein'', ''calories'', ''goal'', ''plan'']"

definition extractKeywords :: "string \<Rightarrow> string list" where
  "extractKeywords userInput =
     rev (remdups (rev (filter (\<lambda>k. k \<in> set topicWords)
       (map toLowerCase (wordRuns [] userInput)))))"

definition analyzeResponse :: "string \<Rightarrow> string \<Rightarrow> ai_response" where
  "analyzeResponse response userInput =
     \<lparr>ar_content = response, ar_type = analyzeType response userInput, ar_confidence = 85,
      ar_keywords = extractKeywords userInput\<rparr>"

definition routeFallbackContent :: string where
  "routeFallbackContent = concat
    [''I'm here to help with your wellness journey!  \<newline>'',
     ''\<newline>'',
     ''I can provide advice on:\<newline>'',
     '' **Fitness & Exercise** - Workout plans and training tips\<newline>'',
     '' **Nutrition** - Healthy eating and meal planning  \<newline>'',
     '' **Mental Health** - Stress management and wellness strategies\<newline>'',
     '' **Sleep & Recovery** - Better sleep habits\<newline>'',
     ''\<newline>'',
     ''Could you tell me more specifically what you'd like help with?'']"

definition fallbackMenu :: string where
  \<open>fallbackMenu = concat
    [''I'm here to help with your wellness journey!  \<newline>'',
     ''\<newline>'',
     ''I can provide personalized advice on:\<newline>'',
     '' **Fitness & Exercise** - Workout plans, form tips, progression strategies\<newline>'',
     '' **Nutrition** - Meal planning, healthy eating, budget-friendly options  \<newline>'',
     '' **Mental Health** - Stress management, mindfulness, emotional wellness\<newline>'',
     '' **Sleep & Recovery** - Better sleep habits and rest optimization\<newline>'',
     ''\<newline>'',
     ''Could you tell me more specifically what you'd like help with? For example:\<newline>'',
     ''- "I want to start working out but don't know where to begin"\<newline>'',
     ''- "Help me plan healthy meals on a budget"\<newline>'',
     ''- "I'm feeling stressed and need coping strategies"\<newline>'',
     ''- "How can I improve my sleep quality?"\<newline>'',
     ''\<newline>'',
     ''I'm here to support your wellness goals with practical, actionable advice! '']\<close>

text \<open>\<^verbatim>\<open>profile?.firstName\<close>: the wellness profile row has no such column.\<close>

definition profileFirstName :: "wellness_profile option \<Rightarrow> string option" where
  "profileFirstName profile = None"

definition getFallbackResponse :: "string \<Rightarrow> wellness_profile option \<Rightarrow> ai_response" where
  "getFallbackResponse userInput profile =
     (let userName = (case profileFirstName profile of None \<Rightarrow> [] | Some n \<Rightarrow> n);
          greeting = (if userName \<noteq> [] then ''Hi '' @ userName @ ''! '' else ''Hi there! '')
      in \<lparr>ar_content = greeting @ fallbackMenu, ar_type = ''SUGGESTION'', ar_confidence = 60,
           ar_keywords = []\<rparr>)"

text \<open>One attempt; a failure of the call (network error, status outside 2xx, timeout after
  30 seconds, malformed answer) is \<open>ProviderError\<close>. It is caught inside the adapter and
  answered with the fallback, so the adapter itself returns normally. Of the object the
  adapter returns, the fields the route stores or reports are kept.\<close>

definition generateJoJoResponse ::
  "completion_provider \<Rightarrow> string \<Rightarrow> wellness_profile option \<Rightarrow> chat_message list \<Rightarrow> world \<Rightarrow>
   ai_response \<times> world" where
  "generateJoJoResponse provider userInput wellnessProfile conversationHistory w =
     (let messages = SystemPrompt wellnessProfile
                       # formatConversationHistory conversationHistory
                       @ [Turn ''user'' userInput];
          w' = w\<lparr>completionCalls := completionCalls w @ [messages]\<rparr>
      in case provider messages of
           Completion aiResponse \<Rightarrow> (analyzeResponse aiResponse userInput, w')
         | ProviderError e \<Rightarrow> (getFallbackResponse userInput wellnessProfile, w'))"

subsection \<open>The message-send operation (POST /message in routes/jojo.js)\<close>

text \<open>The body of a request: the conversation identifier and the content, each absent
  (\<open>None\<close>) or present. The caller is authenticated: the handler receives the user
  identifier.\<close>

record send_request =
  rq_conversationId :: "nat option"
  rq_content :: "string option"

record reply_metadata =
  md_responseTime :: nat
  md_confidence :: nat
  md_messageType :: string
  md_aiProvider :: string
  md_keywords :: "string list"

datatype send_response =
  BadRequest string
  | NotFound string
  | CrisisReply chat_conversation chat_message chat_message crisis_risk_level "string list"
  | ChatReply chat_conversation chat_message chat_message reply_metadata

definition typeMapping :: "(string \<times> message_type) list" where
  "typeMapping =
     [(''GREETING'', TEXT), (''SUGGESTION'', TEXT), (''EXERCISE'', TEXT),
      (''NUTRITION'', RECIPE), (''MENTAL_HEALTH'', TEXT), (''SLEEP'', TEXT),
      (''CRISIS_RESPONSE'', TEXT)]"

text \<open>\<^verbatim>\<open>typeMapping[aiType] || 'TEXT'\<close>\<close>

definition mapMessageType :: "string \<Rightarrow> message_type" where
  "mapMessageType aiType = (case map_of typeMapping aiType of Some t \<Rightarrow> t | None \<Rightarrow> TEXT)"

definition generateTitle :: "string \<Rightarrow> string \<Rightarrow> string" where
  "generateTitle content localeDate =
     (let wordList = take 4 (splitSpaces (toLowerCase content));
          title = joinSpaces wordList
      in case title of [] \<Rightarrow> ''Chat '' @ localeDate | c # cs \<Rightarrow> upperChar c @ cs)"

text \<open>The two validation checks; \<open>Inl\<close> carries the message of the 400 response.\<close>

definition validateContent :: "string option \<Rightarrow> string + string" where
  "validateContent content =
     (case content of
        None \<Rightarrow> Inl ''Message content is required''
      | Some c \<Rightarrow>
          if c = [] \<or> length (trim c) = 0 then Inl ''Message content is required''
          else if length c > 2000 then Inl ''Message too long (max 2000 characters)''
          else Inr c)"

text \<open>Get or create the conversation; \<open>None\<close> is the 404 answer.\<close>

definition resolveConversation ::
  "environment \<Rightarrow> nat \<Rightarrow> nat option \<Rightarrow> string \<Rightarrow> world \<Rightarrow> (chat_conversation \<times> world) option" where
  "resolveConversation env userId conversationId content w =
     (case conversationId of
        Some cid \<Rightarrow>
          (case findConversation cid userId w of None \<Rightarrow> None | Some c \<Rightarrow> Some (c, w))
      | None \<Rightarrow>
          Some (createConversation userId (generateTitle (trim content) (env_localeDate env)) w))"

text \<open>\<^verbatim>\<open>wellnessProfile?.healthGoals ? JSON.parse(...) : []\<close>; \<open>None\<close> is the exception that
  \<^verbatim>\<open>JSON.parse\<close> throws.\<close>

definition parseColumn :: "json_column option \<Rightarrow> string list option" where
  "parseColumn col =
     (case col of None \<Rightarrow> Some [] | Some (StringArray xs) \<Rightarrow> Some xs | Some Unparseable \<Rightarrow> None)"

definition userContextOf :: "wellness_profile option \<Rightarrow> (string list \<times> string list) option" where
  "userContextOf profile =
     (case profile of
        None \<Rightarrow> Some ([], [])
      | Some p \<Rightarrow>
          (case parseColumn (wp_healthGoals p) of
             None \<Rightarrow> None
           | Some userGoals \<Rightarrow>
               (case parseColumn (wp_dietaryRestrictions p) of
                  None \<Rightarrow> None
                | Some userRestrictions \<Rightarrow> Some (userGoals, userRestrictions))))"

definition routeFallback :: ai_response where
  "routeFallback =
     \<lparr>ar_content = routeFallbackContent, ar_type = ''SUGGESTION'', ar_confidence = 60,
      ar_keywords = []\<rparr>"

text \<open>The \<^verbatim>\<open>try\<close> block around the adapter call: an exception while the arguments are
  built is answered by the route's own fallback, without a call.\<close>

definition obtainResponse ::
  "completion_provider \<Rightarrow> string \<Rightarrow> wellness_profile option \<Rightarrow> chat_message list \<Rightarrow> world \<Rightarrow>
   (ai_response \<times> string) \<times> world" where
  "obtainResponse provider content wellnessProfile conversationHistory w =
     (case userContextOf wellnessProfile of
        None \<Rightarrow> ((routeFallback, ''fallback''), w)
      | Some userContext \<Rightarrow>
          (let (groqResponse, w') =
                 generateJoJoResponse provider content wellnessProfile
                   (take 5 conversationHistory) w
           in ((groqResponse, ''groq''), w')))"

definition crisisPath ::
  "nat \<Rightarrow> string \<Rightarrow> chat_conversation \<Rightarrow> chat_message \<Rightarrow> wellness_profile option \<Rightarrow>
   crisis_risk_level \<Rightarrow> string list \<Rightarrow> string \<Rightarrow> string list \<Rightarrow> string list \<Rightarrow> world \<Rightarrow>
   send_response \<times> world" where
  "crisisPath userId content conversation userMessage wellnessProfile level found reply
     resourceList hotlineList w =
     (let (crisisLog, w1) =
            createCrisisLog userId (cm_id userMessage) content found level reply resourceList
              (profileRegion wellnessProfile) hotlineList w;
          (jojoMessage, w2) =
            createMessage (cv_id conversation) userId reply JOJO CRISIS_RESPONSE None None None w1;
          w3 = touchConversation (cv_id conversation) w2
      in (CrisisReply conversation userMessage jojoMessage level found, w3))"

definition completionPath ::
  "completion_provider \<Rightarrow> environment \<Rightarrow> nat \<Rightarrow> string \<Rightarrow> chat_conversation \<Rightarrow> chat_message \<Rightarrow>
   wellness_profile option \<Rightarrow> chat_message list \<Rightarrow> world \<Rightarrow> send_response \<times> world" where
  "completionPath provider env userId content conversation userMessage wellnessProfile
     conversationHistory w =
     (let ((aiResponse, aiProvider), w1) =
            obtainResponse provider content wellnessProfile conversationHistory w;
          responseTime = env_responseTime env;
          confidence = (if ar_confidence aiResponse = 0 then 70 else ar_confidence aiResponse);
          (jojoMessage, w2) =
            createMessage (cv_id conversation) userId (ar_content aiResponse) JOJO
              (mapMessageType (ar_type aiResponse)) (Some responseTime) (Some confidence)
              (Some (ar_keywords aiResponse)) w1;
          w3 = touchConversation (cv_id conversation) w2;
          w4 = upsertAnalytics userId (env_today env) responseTime w3
      in (ChatReply conversation userMessage jojoMessage
            \<lparr>md_responseTime = responseTime, md_confidence = confidence,
             md_messageType = (if ar_type aiResponse = [] then ''SUGGESTION''
                               else ar_type aiResponse),
             md_aiProvider = aiProvider, md_keywords = ar_keywords aiResponse\<rparr>,
          w4))"

text \<open>From the saving of the user message on: the classifier runs on the content as
  sent, before anything else is decided.\<close>

definition answerMessage ::
  "completion_provider \<Rightarrow> environment \<Rightarrow> nat \<Rightarrow> string \<Rightarrow> chat_conversation \<Rightarrow> world \<Rightarrow>
   send_response \<times> world" where
  "answerMessage provider env userId content conversation w =
     (let (userMessage, w1) =
            createMessage (cv_id conversation) userId (trim content) USER TEXT None None None w;
          wellnessProfile = findProfile userId w1;
          conversationHistory = recentMessages (cv_id conversation) w1
      in case detectCrisis content wellnessProfile of
           Crisis level found reply resourceList hotlineList \<Rightarrow>
             crisisPath userId content conversation userMessage wellnessProfile level found
               reply resourceList hotlineList w1
         | NoCrisis \<Rightarrow>
             completionPath provider env userId content conversation userMessage
               wellnessProfile conversationHistory w1)"

definition sendMessage ::
  "completion_provider \<Rightarrow> environment \<Rightarrow> nat \<Rightarrow> send_request \<Rightarrow> world \<Rightarrow> send_response \<times> world" where
  "sendMessage provider env userId req w =
     (case validateContent (rq_content req) of
        Inl problem \<Rightarrow> (BadRequest problem, w)
      | Inr content \<Rightarrow>
          (case resolveConversation env userId (rq_conversationId req) content w of
             None \<Rightarrow> (NotFound ''Conversation not found'', w)
           | Some (conversation, w1) \<Rightarrow>
               answerMessage provider env userId content conversation w1))"

subsection \<open>Notions of the specification\<close>

text \<open>A phrase is a case-insensitive substring of a text when some contiguous piece of
  the text equals the phrase up to the case of its letters.\<close>

definition caseInsensitiveSubstring :: "string \<Rightarrow> string \<Rightarrow> bool" where
  "caseInsensitiveSubstring phrase text =
     (\<exists>piece \<in> set (sublists text). toLowerCase piece = toLowerCase phrase)"

text \<open>A request is accepted when it passes validation and its conversation is resolved:
  none was named, or the named one belongs to the caller.\<close>

definition accepted :: "nat \<Rightarrow> send_request \<Rightarrow> world \<Rightarrow> bool" where
  "accepted userId req w =
     (case validateContent (rq_content req) of
        Inl problem \<Rightarrow> False
      | Inr content \<Rightarrow>
          (case rq_conversationId req of
             None \<Rightarrow> True
           | Some cid \<Rightarrow> findConversation cid userId w \<noteq> None))"

text \<open>The reference algorithm of the specification: the highest tier with a matching
  phrase wins and reports all its matching phrases.\<close>

definition matchedPhrases :: "string list \<Rightarrow> string \<Rightarrow> string list" where
  "matchedPhrases phrases text = filter (\<lambda>p. caseInsensitiveSubstring p text) phrases"

definition classifyReference :: "string \<Rightarrow> (crisis_risk_level \<times> string list) option" where
  "classifyReference text =
     (if matchedPhrases HIGH_RISK text \<noteq> [] then Some (HIGH, matchedPhrases HIGH_RISK text)
      else if matchedPhrases MEDIUM_RISK text \<noteq> [] then
        Some (MEDIUM, matchedPhrases MEDIUM_RISK text)
      else if matchedPhrases LOW_RISK text \<noteq> [] then Some (LOW, matchedPhrases LOW_RISK text)
      else None)"

text \<open>The tier and the keyword list of a detection.\<close>

definition classification :: "crisis_detection \<Rightarrow> (crisis_risk_level \<times> string list) option" where
  "classification d =
     (case d of NoCrisis \<Rightarrow> None | Crisis level found reply rs hs \<Rightarrow> Some (level, found))"

text \<open>The \<^verbatim>\<open>lastMessageAt\<close> stamp of a conversation.\<close>

definition lastMessageAtOf :: "nat \<Rightarrow> world \<Rightarrow> nat option" where
  "lastMessageAtOf conversationId w =
     (case find (\<lambda>c. cv_id c = conversationId) (chatConversations w) of
        None \<Rightarrow> None | Some c \<Rightarrow> cv_lastMessageAt c)"

subsection \<open>Sample inputs\<close>

definition emptyWorld :: world where
  "emptyWorld =
     \<lparr>chatConversations = [], chatMessages = [], wellnessProfiles = [], crisisLogs = [],
      chatAnalyticsRows = [], clock = 0, completionCalls = []\<rparr>"

definition sampleEnvironment :: environment where
  "sampleEnvironment = \<lparr>env_responseTime = 1200, env_today = 7, env_localeDate = ''11/2/2026''\<rparr>"

definition timeoutProvider :: completion_provider where
  "timeoutProvider request = ProviderError ''timeout of 30000ms exceeded''"

definition firstMessage :: "string \<Rightarrow> send_request" where
  "firstMessage text = \<lparr>rq_conversationId = None, rq_content = Some text\<rparr>"

definition blankRequest :: send_request where
  "blankRequest = \<lparr>rq_conversationId = None, rq_content = Some ''   ''\<rparr>"

definition trackedWorld :: world where
  "trackedWorld =
     \<lparr>chatConversations = [], chatMessages = [], wellnessProfiles = [], crisisLogs = [],
      chatAnalyticsRows =
        [\<lparr>ca_userId = 1, ca_date = 7, ca_messagesCount = 3, ca_conversationTime = 5\<rparr>],
      clock = 0, completionCalls = []\<rparr>"

definition workoutProvider :: completion_provider where
  "workoutProvider request = Completion ''Start with a simple workout.''"

definition historyWorld :: world where
  "historyWorld =
     \<lparr>chatConversations =
        [\<lparr>cv_id = 0, cv_userId = 1, cv_title = ''First question'', cv_lastMessageAt = Some 2\<rparr>],
      chatMessages =
        [\<lparr>cm_id = 1, cm_conversationId = 0, cm_userId = 1,
          cm_content = replicate 1001 CHR ''a'', cm_sender = USER, cm_messageType = TEXT,
          cm_responseTime = None, cm_confidence = None, cm_triggerKeywords = None,
          cm_createdAt = 1\<rparr>,
         \<lparr>cm_id = 2, cm_conversationId = 0, cm_userId = 1,
          cm_content = ''Tell me more.'', cm_sender = JOJO, cm_messageType = TEXT,
          cm_responseTime = Some 1200, cm_confidence = Some 85, cm_triggerKeywords = Some [],
          cm_createdAt = 2\<rparr>],
      wellnessProfiles = [], crisisLogs = [], chatAnalyticsRows = [], clock = 3,
      completionCalls = []\<rparr>"

definition followUp :: send_request where
  "followUp = \<lparr>rq_conversationId = Some 0, rq_content = Some ''And then?''\<rparr>"

section \<open>Properties of the classifier and of the region tables\<close>

lemmas string_eval =
  toLowerCase_def lowerChar_def isUpperCase_def code_def char_of_def bit_0

lemma includesStr_sublist: "includesStr s k = sublist k s"
  by (induction s) (auto simp: sublist_Cons_right)

lemma includesStr_iff: "includesStr s k \<longleftrightarrow> (\<exists>u w. s = u @ k @ w)"
  by (simp add: includesStr_sublist sublist_def)

lemma toLowerCase_append: "toLowerCase (u @ v) = toLowerCase u @ toLowerCase v"
  by (simp add: toLowerCase_def)

lemma caseInsensitiveSubstring_includes:
  assumes "toLowerCase k = k"
  shows "caseInsensitiveSubstring k text = includesStr (toLowerCase text) k"
proof
  assume "caseInsensitiveSubstring k text"
  then obtain piece where p: "sublist piece text" "toLowerCase piece = k"
    using assms by (auto simp: caseInsensitiveSubstring_def)
  then obtain u w where "text = u @ piece @ w" by (auto simp: sublist_def)
  then have "toLowerCase text = toLowerCase u @ k @ toLowerCase w"
    using p by (simp add: toLowerCase_append)
  then show "includesStr (toLowerCase text) k" unfolding includesStr_iff by blast
next
  assume "includesStr (toLowerCase text) k"
  then obtain u' w' where "map lowerChar text = u' @ k @ w'"
    unfolding includesStr_iff toLowerCase_def by blast
  then obtain u vw where 1: "text = u @ vw" "k @ w' = map lowerChar vw"
    by (auto simp: map_eq_append_conv)
  then obtain v w where 2: "vw = v @ w" "k = map lowerChar v"
    by (auto simp: append_eq_map_conv)
  with 1 have "text = u @ v @ w" "map lowerChar v = k" by simp_all
  then have "sublist v text" "toLowerCase v = toLowerCase k"
    using assms by (auto simp: sublist_def toLowerCase_def)
  then show "caseInsensitiveSubstring k text"
    unfolding caseInsensitiveSubstring_def by (intro bexI[of _ v]) simp_all
qed

lemma crisis_phrases_lower:
  "k \<in> set (HIGH_RISK @ MEDIUM_RISK @ LOW_RISK) \<Longrightarrow> toLowerCase k = k"
  by (auto simp: HIGH_RISK_def MEDIUM_RISK_def LOW_RISK_def toLowerCase_def lowerChar_def isUpperCase_def code_def char_of_def)

lemma matched_filter:
  assumes "set phrases \<subseteq> set (HIGH_RISK @ MEDIUM_RISK @ LOW_RISK)"
  shows "filter (\<lambda>keyword. includesStr (toLowerCase text) keyword) phrases
           = matchedPhrases phrases text"
  unfolding matchedPhrases_def
proof (rule filter_cong[OF refl])
  fix k assume "k \<in> set phrases"
  then have "toLowerCase k = k" using assms crisis_phrases_lower by blast
  then show "includesStr (toLowerCase text) k = caseInsensitiveSubstring k text"
    by (simp add: caseInsensitiveSubstring_includes)
qed

lemma classification_detectCrisis:
  "classification (detectCrisis text profile) = classifyReference text"
proof -
  have h: "filter (\<lambda>keyword. includesStr (toLowerCase text) keyword) HIGH_RISK
             = matchedPhrases HIGH_RISK text"
    and m: "filter (\<lambda>keyword. includesStr (toLowerCase text) keyword) MEDIUM_RISK
             = matchedPhrases MEDIUM_RISK text"
    and l: "filter (\<lambda>keyword. includesStr (toLowerCase text) keyword) LOW_RISK
             = matchedPhrases LOW_RISK text"
    by (rule matched_filter; auto)+
  show ?thesis
    by (simp add: detectCrisis_def h m l classifyReference_def classification_def
          crisisResult_def Let_def)
qed

text \<open>
  \<^bold>\<open>C2.\<close> The classifier implements the tiered reference algorithm: its
  tier and keyword list are those of the highest tier that has a phrase occurring in the
  text as a case-insensitive substring, with all matching phrases of that tier; a HIGH
  phrase wins whatever else occurs; and it reports no risk exactly when no phrase of the
  three lists occurs.
\<close>
theorem detectCrisis_tiered:
  "classification (detectCrisis text profile) = classifyReference text
   \<and> ((\<exists>p \<in> set HIGH_RISK. caseInsensitiveSubstring p text) \<longrightarrow>
        classification (detectCrisis text profile) = Some (HIGH, matchedPhrases HIGH_RISK text))
   \<and> (detectCrisis text profile = NoCrisis \<longleftrightarrow>
        \<not> (\<exists>p \<in> set (HIGH_RISK @ MEDIUM_RISK @ LOW_RISK). caseInsensitiveSubstring p text))"
proof (intro conjI impI)
  show c: "classification (detectCrisis text profile) = classifyReference text"
    by (rule classification_detectCrisis)
  have e: "matchedPhrases ps text \<noteq> [] \<longleftrightarrow> (\<exists>p \<in> set ps. caseInsensitiveSubstring p text)" for ps
    by (auto simp: matchedPhrases_def filter_empty_conv)
  show "classification (detectCrisis text profile) = Some (HIGH, matchedPhrases HIGH_RISK text)"
    if "\<exists>p \<in> set HIGH_RISK. caseInsensitiveSubstring p text"
    using that c e[of HIGH_RISK] by (simp add: classifyReference_def)
  have "detectCrisis text profile = NoCrisis \<longleftrightarrow> classification (detectCrisis text profile) = None"
    by (cases "detectCrisis text profile") (simp_all add: classification_def)
  also have "\<dots> \<longleftrightarrow> classifyReference text = None" by (simp add: c)
  also have "\<dots> \<longleftrightarrow> \<not> (\<exists>p \<in> set (HIGH_RISK @ MEDIUM_RISK @ LOW_RISK). caseInsensitiveSubstring p text)"
    using e[of HIGH_RISK] e[of MEDIUM_RISK] e[of LOW_RISK]
    by (auto simp: classifyReference_def)
  finally show "detectCrisis text profile = NoCrisis \<longleftrightarrow>
        \<not> (\<exists>p \<in> set (HIGH_RISK @ MEDIUM_RISK @ LOW_RISK). caseInsensitiveSubstring p text)" .
qed

theorem detectCrisis_tiered_witness:
  "(\<exists>p \<in> set HIGH_RISK. caseInsensitiveSubstring p ''I feel HOPELESS, I want to Kill Myself'')
   \<and> classification (detectCrisis ''I feel HOPELESS, I want to Kill Myself'' None)
       = Some (HIGH, [''kill myself''])
   \<and> detectCrisis ''What's a good beginner workout?'' None = NoCrisis"
proof -
  have l: "toLowerCase ''I feel HOPELESS, I want to Kill Myself'' = ''i feel hopeless, i want to kill myself''"
    by (simp add: string_eval)
  have k: "toLowerCase k = k" if "k \<in> set (HIGH_RISK @ MEDIUM_RISK @ LOW_RISK)" for k
    using that by (rule crisis_phrases_lower)
  have m: "matchedPhrases HIGH_RISK ''I feel HOPELESS, I want to Kill Myself'' = [''kill myself'']"
    unfolding matched_filter[of HIGH_RISK, simplified, symmetric] l
    by (simp add: HIGH_RISK_def)
  have h: "\<exists>p \<in> set HIGH_RISK. caseInsensitiveSubstring p ''I feel HOPELESS, I want to Kill Myself''"
  proof -
    have "matchedPhrases HIGH_RISK ''I feel HOPELESS, I want to Kill Myself'' \<noteq> []"
      using m by simp
    then show ?thesis by (auto simp: matchedPhrases_def filter_empty_conv)
  qed
  have l2: "toLowerCase ''What's a good beginner workout?'' = ''what's a good beginner workout?''"
    by (simp add: string_eval)
  have n: "\<not> (\<exists>p \<in> set (HIGH_RISK @ MEDIUM_RISK @ LOW_RISK).
              caseInsensitiveSubstring p ''What's a good beginner workout?'')"
    apply (simp add: caseInsensitiveSubstring_includes k l2 ball_Un)
    apply (simp add: HIGH_RISK_def MEDIUM_RISK_def LOW_RISK_def)
    done
  have a: "classification (detectCrisis ''I feel HOPELESS, I want to Kill Myself'' None)
             = Some (HIGH, matchedPhrases HIGH_RISK ''I feel HOPELESS, I want to Kill Myself'')"
    using detectCrisis_tiered[of "''I feel HOPELESS, I want to Kill Myself''" None] h by blast
  have b: "detectCrisis ''What's a good beginner workout?'' None = NoCrisis"
    using detectCrisis_tiered[of "''What's a good beginner workout?''" None] n by blast
  from a have a': "classification (detectCrisis ''I feel HOPELESS, I want to Kill Myself'' None)
             = Some (HIGH, [''kill myself''])"
    unfolding m .
  show ?thesis using h a' b by blast
qed

text \<open>
  \<^bold>\<open>C9.\<close> The tier and the keyword list of the classifier depend on the
  message text only: any two wellness profiles, present or absent and whatever their
  crisisMonitoring flag, give the same classification.
\<close>
theorem detectCrisis_ignores_profile:
  "classification (detectCrisis text profile1) = classification (detectCrisis text profile2)
   \<and> isCrisis (detectCrisis text profile1) = isCrisis (detectCrisis text profile2)"
proof -
  have "isCrisis d = (classification d \<noteq> None)" for d
    by (cases d) (simp_all add: classification_def)
  then show ?thesis by (simp add: classification_detectCrisis)
qed

text \<open>
  \<^bold>\<open>C6.\<close> The two region tables of the source disagree. For the region
  ''Canada'' the hotline list is the Canadian one while the contact block rendered into the
  safety reply is the international one, and for ''United Kingdom'' the rendered block is
  the Nigerian one, because the test for ''ng'' comes first.
\<close>
theorem region_tables_disagree:
  "getCrisisHotlines (Some ''Canada'') = [''1-833-456-4566'', ''45645'', ''911'']
   \<and> getLocalHotlines (Some ''Canada'') = internationalResources
   \<and> generateCrisisResponse (Some ''Canada'') HIGH
       = highRiskOpening @ internationalResources @ highRiskClosing
   \<and> getLocalHotlines (Some ''United Kingdom'') = nigeriaContacts
   \<and> nigeriaContacts \<noteq> ukResources"
  by (simp add: getCrisisHotlines_def getLocalHotlines_def generateCrisisResponse_def
        regionLower_def string_eval nigeriaContacts_def ukResources_def)

text \<open>The hotline list itself follows the table of four regions, by case-insensitive
  substring, with the fallback list for an absent or unrecognized region.\<close>

lemma getCrisisHotlines_absent: "getCrisisHotlines None = [''Local emergency services'']"
  by (simp add: getCrisisHotlines_def regionLower_def)

lemma regionLower_includes:
  "toLowerCase k = k \<Longrightarrow> includesStr (regionLower (Some region)) k = caseInsensitiveSubstring k region"
  by (simp add: regionLower_def caseInsensitiveSubstring_includes)

lemma getCrisisHotlines_nigeria:
  "caseInsensitiveSubstring ''nigeria'' region \<Longrightarrow>
   getCrisisHotlines (Some region) = [''+234 809 210 6493'', ''199'', ''911'', ''08000333333'']"
  using regionLower_includes[of "''nigeria''" region]
  by (simp add: getCrisisHotlines_def string_eval)

lemma getCrisisHotlines_unrecognized:
  assumes "\<not> caseInsensitiveSubstring ''nigeria'' region" "\<not> caseInsensitiveSubstring ''usa'' region"
    "\<not> caseInsensitiveSubstring ''uk'' region" "\<not> caseInsensitiveSubstring ''canada'' region"
  shows "getCrisisHotlines (Some region) = [''Local emergency services'']"
  using assms regionLower_includes[of "''nigeria''" region] regionLower_includes[of "''usa''" region]
    regionLower_includes[of "''uk''" region] regionLower_includes[of "''canada''" region]
  by (simp add: getCrisisHotlines_def string_eval)

lemma getCrisisHotlines_recognized:
  "getCrisisHotlines (Some ''Nigeria'') = [''+234 809 210 6493'', ''199'', ''911'', ''08000333333'']"
  "getCrisisHotlines (Some ''USA'') = [''988'', ''741741'', ''911'', ''1-800-799-7233'']"
  "getCrisisHotlines (Some ''UK'') = [''116 123'', ''85258'', ''999'', ''0808 2000 247'']"
  "getCrisisHotlines (Some ''Canada'') = [''1-833-456-4566'', ''45645'', ''911'']"
  by (simp_all add: getCrisisHotlines_def regionLower_def string_eval)

section \<open>Properties of the message-send operation\<close>

lemma trim_Nil_iff: "trim s = [] \<longleftrightarrow> (\<forall>c \<in> set s. isWhiteSpace c)"
proof
  assume "\<forall>c \<in> set s. isWhiteSpace c"
  then have d: "dropWhile isWhiteSpace s = []" by (simp add: dropWhile_eq_Nil_conv)
  show "trim s = []" unfolding trim_def d by simp
next
  assume t: "trim s = []"
  have "dropWhile isWhiteSpace s = []"
  proof (rule ccontr)
    assume n: "dropWhile isWhiteSpace s \<noteq> []"
    then have "\<not> isWhiteSpace (hd (dropWhile isWhiteSpace s))" by (rule hd_dropWhile)
    moreover have "hd (dropWhile isWhiteSpace s) \<in> set (dropWhile isWhiteSpace s)"
      using n by simp
    moreover have "\<forall>c \<in> set (dropWhile isWhiteSpace s). isWhiteSpace c"
      using t by (simp add: trim_def dropWhile_eq_Nil_conv)
    ultimately show False by blast
  qed
  then show "\<forall>c \<in> set s. isWhiteSpace c" by (simp add: dropWhile_eq_Nil_conv)
qed

lemma validateContent_Inr:
  "validateContent c = Inr x \<longleftrightarrow> c = Some x \<and> trim x \<noteq> [] \<and> length x \<le> 2000"
  by (auto simp: validateContent_def trim_def split: option.splits)

lemma answerMessage_crisis:
  assumes "detectCrisis content (findProfile userId w) = Crisis level found reply rs hs"
  shows "\<exists>um jm l. 
      fst (answerMessage provider env userId content conv w) = CrisisReply conv um jm level found
    \<and> chatMessages (snd (answerMessage provider env userId content conv w)) = chatMessages w @ [um, jm]
    \<and> cm_sender um = USER \<and> cm_content um = trim content
    \<and> cm_sender jm = JOJO \<and> cm_content jm = reply \<and> cm_messageType jm = CRISIS_RESPONSE
    \<and> crisisLogs (snd (answerMessage provider env userId content conv w)) = crisisLogs w @ [l]
    \<and> cl_riskLevel l = level \<and> cl_keywords l = found \<and> cl_messageId l = Some (cm_id um)
    \<and> cl_followUpNeeded l = (level = HIGH) \<and> cl_adminNotified l = (level = HIGH)
    \<and> completionCalls (snd (answerMessage provider env userId content conv w)) = completionCalls w
    \<and> chatAnalyticsRows (snd (answerMessage provider env userId content conv w)) = chatAnalyticsRows w"
  using assms
  by (simp add: answerMessage_def crisisPath_def createMessage_def createCrisisLog_def
        touchConversation_def findProfile_def Let_def)

lemma createMessage_result:
  assumes "createMessage cid uid c s t rt cf kw w = (m, w')"
  shows "w' = w\<lparr>chatMessages := chatMessages w @ [m], clock := Suc (clock w)\<rparr>"
    and "cm_conversationId m = cid" and "cm_content m = c" and "cm_sender m = s"
    and "cm_messageType m = t" and "cm_createdAt m = clock w" and "cm_id m = clock w"
  using assms by (auto simp: createMessage_def Let_def)

lemma obtainResponse_world:
  assumes "obtainResponse provider content prof h w = (r, w')"
  shows "w' = w\<lparr>completionCalls := completionCalls w'\<rparr>"
  using assms
  by (auto simp: obtainResponse_def generateJoJoResponse_def Let_def
           split: option.splits completion_outcome.splits)

lemma answerMessage_completion:
  assumes "detectCrisis content (findProfile userId w) = NoCrisis"
    and "createMessage (cv_id conv) userId (trim content) USER TEXT None None None w = (um, w1)"
    and "obtainResponse provider content (findProfile userId w) (recentMessages (cv_id conv) w1) w1
           = ((ai, aiProvider), w2)"
    and "createMessage (cv_id conv) userId (ar_content ai) JOJO (mapMessageType (ar_type ai))
           (Some (env_responseTime env))
           (Some (if ar_confidence ai = 0 then 70 else ar_confidence ai))
           (Some (ar_keywords ai)) w2 = (jm, w3)"
  shows "answerMessage provider env userId content conv w =
           (ChatReply conv um jm
              \<lparr>md_responseTime = env_responseTime env,
               md_confidence = (if ar_confidence ai = 0 then 70 else ar_confidence ai),
               md_messageType = (if ar_type ai = [] then ''SUGGESTION'' else ar_type ai),
               md_aiProvider = aiProvider, md_keywords = ar_keywords ai\<rparr>,
            upsertAnalytics userId (env_today env) (env_responseTime env)
              (touchConversation (cv_id conv) w3))"
proof -
  have p: "findProfile userId w1 = findProfile userId w"
    using createMessage_result(1)[OF assms(2)] by (simp add: findProfile_def)
  show ?thesis
    by (simp add: answerMessage_def completionPath_def assms p Let_def)
qed

lemma findProfile_cong:
  "wellnessProfiles w0 = wellnessProfiles w \<Longrightarrow> findProfile userId w0 = findProfile userId w"
  by (simp add: findProfile_def)

lemma detectCrisis_rendered:
  assumes "detectCrisis content profile = Crisis level found reply rs hs"
  shows "reply = generateCrisisResponse (profileRegion profile) level"
    and "rs = getCrisisResources (profileRegion profile)"
    and "hs = getCrisisHotlines (profileRegion profile)"
  using assms by (auto simp: detectCrisis_def crisisResult_def Let_def split: if_splits)

lemma resolveConversation_world:
  assumes "resolveConversation env userId cid content w = Some (conv, w0)"
  shows "chatMessages w0 = chatMessages w" and "crisisLogs w0 = crisisLogs w"
    and "chatAnalyticsRows w0 = chatAnalyticsRows w" and "completionCalls w0 = completionCalls w"
    and "wellnessProfiles w0 = wellnessProfiles w"
    and "conv \<in> set (chatConversations w0)"
  using assms
  by (auto simp: resolveConversation_def createConversation_def findConversation_def Let_def
        find_Some_iff in_set_conv_nth split: option.splits)

lemma sendMessage_accepted:
  assumes "accepted userId req w"
  obtains content conv w0 where
    "rq_content req = Some content" "trim content \<noteq> []" "length content \<le> 2000"
    "resolveConversation env userId (rq_conversationId req) content w = Some (conv, w0)"
    "sendMessage provider env userId req w = answerMessage provider env userId content conv w0"
proof -
  from assms obtain content where v: "validateContent (rq_content req) = Inr content"
    by (auto simp: accepted_def split: sum.splits)
  with assms have "resolveConversation env userId (rq_conversationId req) content w \<noteq> None"
    by (auto simp: accepted_def resolveConversation_def split: option.splits)
  then obtain conv w0 where
    r: "resolveConversation env userId (rq_conversationId req) content w = Some (conv, w0)"
    by auto
  have "sendMessage provider env userId req w = answerMessage provider env userId content conv w0"
    by (simp add: sendMessage_def v r)
  with v r that show thesis by (simp add: validateContent_Inr)
qed

lemma sendMessage_rejected:
  assumes "\<not> accepted userId req w"
  shows "snd (sendMessage provider env userId req w) = w"
    and "(\<exists>problem. fst (sendMessage provider env userId req w) = BadRequest problem)
         \<or> fst (sendMessage provider env userId req w) = NotFound ''Conversation not found''"
  using assms
  by (auto simp: accepted_def sendMessage_def resolveConversation_def
           split: sum.splits option.splits)

lemma answerMessage_completion_effects:
  assumes nc: "detectCrisis content (findProfile userId w) = NoCrisis"
  obtains um jm md ai aiProvider w1 w2 where
    "createMessage (cv_id conv) userId (trim content) USER TEXT None None None w = (um, w1)"
    "obtainResponse provider content (findProfile userId w) (recentMessages (cv_id conv) w1) w1
       = ((ai, aiProvider), w2)"
    "fst (answerMessage provider env userId content conv w) = ChatReply conv um jm md"
    "chatMessages (snd (answerMessage provider env userId content conv w)) = chatMessages w @ [um, jm]"
    "cm_sender jm = JOJO" "cm_content jm = ar_content ai"
    "cm_messageType jm = mapMessageType (ar_type ai)"
    "cm_createdAt jm = Suc (clock w)"
    "md_messageType md = (if ar_type ai = [] then ''SUGGESTION'' else ar_type ai)"
    "md_aiProvider md = aiProvider"
    "crisisLogs (snd (answerMessage provider env userId content conv w)) = crisisLogs w"
    "completionCalls (snd (answerMessage provider env userId content conv w)) = completionCalls w2"
    "chatAnalyticsRows (snd (answerMessage provider env userId content conv w))
       = chatAnalyticsRows (upsertAnalytics userId (env_today env) (env_responseTime env) w)"
    "chatConversations (snd (answerMessage provider env userId content conv w))
       = map (\<lambda>c. if cv_id c = cv_id conv then c\<lparr>cv_lastMessageAt := Some (Suc (Suc (clock w)))\<rparr> else c)
           (chatConversations w)"
proof -
  obtain um w1 where
    um: "createMessage (cv_id conv) userId (trim content) USER TEXT None None None w = (um, w1)"
    by (cases "createMessage (cv_id conv) userId (trim content) USER TEXT None None None w")
  obtain ai aiProvider w2 where
    ob: "obtainResponse provider content (findProfile userId w) (recentMessages (cv_id conv) w1) w1
           = ((ai, aiProvider), w2)"
    by (metis prod.exhaust)
  obtain jm w3 where
    jm: "createMessage (cv_id conv) userId (ar_content ai) JOJO (mapMessageType (ar_type ai))
           (Some (env_responseTime env))
           (Some (if ar_confidence ai = 0 then 70 else ar_confidence ai))
           (Some (ar_keywords ai)) w2 = (jm, w3)"
    by (metis prod.exhaust)
  note a = answerMessage_completion[OF nc um ob jm]
  note u = createMessage_result[OF um]
  note j = createMessage_result[OF jm]
  note o = obtainResponse_world[OF ob]
  have w2: "chatMessages w2 = chatMessages w @ [um]" "clock w2 = Suc (clock w)"
    "crisisLogs w2 = crisisLogs w" "chatAnalyticsRows w2 = chatAnalyticsRows w"
    "chatConversations w2 = chatConversations w"
    by (subst o, simp add: u(1))+
  have w3: "chatMessages w3 = chatMessages w @ [um, jm]" "clock w3 = Suc (Suc (clock w))"
    "crisisLogs w3 = crisisLogs w" "chatAnalyticsRows w3 = chatAnalyticsRows w"
    "chatConversations w3 = chatConversations w" "completionCalls w3 = completionCalls w2"
    by (subst j(1), simp add: w2)+
  show thesis
  proof (rule that[OF um ob])
    show "fst (answerMessage provider env userId content conv w) = ChatReply conv um jm
              \<lparr>md_responseTime = env_responseTime env,
               md_confidence = (if ar_confidence ai = 0 then 70 else ar_confidence ai),
               md_messageType = (if ar_type ai = [] then ''SUGGESTION'' else ar_type ai),
               md_aiProvider = aiProvider, md_keywords = ar_keywords ai\<rparr>"
      by (simp add: a)
  qed (simp_all add: a j w2 w3 upsertAnalytics_def touchConversation_def)
qed

subsection \<open>The crisis path\<close>

lemma answerMessage_crisis_effects:
  assumes "detectCrisis content (findProfile userId w) = Crisis level found reply rs hs"
  obtains um jm l where
    "fst (answerMessage provider env userId content conv w) = CrisisReply conv um jm level found"
    "chatMessages (snd (answerMessage provider env userId content conv w)) = chatMessages w @ [um, jm]"
    "cm_sender um = USER" "cm_content um = trim content"
    "cm_sender jm = JOJO" "cm_content jm = reply" "cm_messageType jm = CRISIS_RESPONSE"
    "crisisLogs (snd (answerMessage provider env userId content conv w)) = crisisLogs w @ [l]"
    "cl_riskLevel l = level" "cl_keywords l = found" "cl_messageId l = Some (cm_id um)"
    "cl_followUpNeeded l = (level = HIGH)" "cl_adminNotified l = (level = HIGH)"
    "completionCalls (snd (answerMessage provider env userId content conv w)) = completionCalls w"
    "chatAnalyticsRows (snd (answerMessage provider env userId content conv w)) = chatAnalyticsRows w"
  using answerMessage_crisis[OF assms, of provider env conv] by blast

text \<open>
  \<^bold>\<open>C1.\<close> Whenever the classifier detects a risk tier on the content of a
  request, the message-send operation sends nothing to the completion provider; and when the
  request is accepted, it answers with the crisis reply, whose stored assistant message is
  the rendered safety text for the detected tier and the user's region.
\<close>
theorem crisis_bypasses_provider:
  assumes "rq_content req = Some content"
    and "isCrisis (detectCrisis content (findProfile userId w))"
    and "sendMessage provider env userId req w = (r, w')"
  shows "completionCalls w' = completionCalls w
     \<and> (accepted userId req w \<longrightarrow>
          (\<exists>conv um jm level found.
             r = CrisisReply conv um jm level found
           \<and> classification (detectCrisis content (findProfile userId w)) = Some (level, found)
           \<and> last (chatMessages w') = jm \<and> cm_sender jm = JOJO
           \<and> cm_messageType jm = CRISIS_RESPONSE
           \<and> cm_content jm = generateCrisisResponse (profileRegion (findProfile userId w)) level))"
proof (cases "accepted userId req w")
  case False
  then show ?thesis using sendMessage_rejected(1)[of userId req w provider env] assms(3) by simp
next
  case True
  then obtain content' conv w0 where
    c: "rq_content req = Some content'"
    and rc: "resolveConversation env userId (rq_conversationId req) content' w = Some (conv, w0)"
    and s: "sendMessage provider env userId req w = answerMessage provider env userId content' conv w0"
    by (rule sendMessage_accepted)
  from c assms(1) have [simp]: "content' = content" by simp
  note rw = resolveConversation_world[OF rc]
  have p: "findProfile userId w0 = findProfile userId w" by (rule findProfile_cong[OF rw(5)])
  from assms(2) obtain level found reply rs hs where
    d: "detectCrisis content (findProfile userId w) = Crisis level found reply rs hs"
    by (cases "detectCrisis content (findProfile userId w)") auto
  then have d0: "detectCrisis content (findProfile userId w0) = Crisis level found reply rs hs"
    by (simp add: p)
  from d0 obtain um jm l where
    e: "fst (answerMessage provider env userId content conv w0) = CrisisReply conv um jm level found"
      "chatMessages (snd (answerMessage provider env userId content conv w0)) = chatMessages w0 @ [um, jm]"
      "cm_sender jm = JOJO" "cm_content jm = reply" "cm_messageType jm = CRISIS_RESPONSE"
      "completionCalls (snd (answerMessage provider env userId content conv w0)) = completionCalls w0"
    by (rule answerMessage_crisis_effects)
  from s assms(3) have "answerMessage provider env userId content conv w0 = (r, w')" by simp
  then have r: "r = fst (answerMessage provider env userId content conv w0)"
    and w': "w' = snd (answerMessage provider env userId content conv w0)" by simp_all
  have "completionCalls w' = completionCalls w" by (simp add: w' e rw)
  moreover have "r = CrisisReply conv um jm level found" by (simp add: r e)
  moreover have "classification (detectCrisis content (findProfile userId w)) = Some (level, found)"
    by (simp add: d classification_def)
  moreover have "last (chatMessages w') = jm" by (simp add: w' e)
  moreover have "cm_content jm = generateCrisisResponse (profileRegion (findProfile userId w)) level"
    using detectCrisis_rendered(1)[OF d] e by simp
  ultimately show ?thesis using e by blast
qed

lemma kill_myself_detected:
  "detectCrisis ''I want to kill myself'' None =
     Crisis HIGH [''kill myself''] (generateCrisisResponse None HIGH) (getCrisisResources None)
       (getCrisisHotlines None)"
  by (simp add: detectCrisis_def crisisResult_def profileRegion_def HIGH_RISK_def string_eval)

lemma firstMessage_accepted:
  "trim text \<noteq> [] \<Longrightarrow> length text \<le> 2000 \<Longrightarrow> accepted userId (firstMessage text) w"
  by (auto simp: accepted_def firstMessage_def validateContent_def trim_def)

lemma trim_kill_myself: "trim ''I want to kill myself'' = ''I want to kill myself''"
  by (simp add: trim_def isWhiteSpace_def code_def)

theorem crisis_bypasses_provider_witness:
  "rq_content (firstMessage ''I want to kill myself'') = Some ''I want to kill myself''
   \<and> isCrisis (detectCrisis ''I want to kill myself'' (findProfile 1 emptyWorld))
   \<and> accepted 1 (firstMessage ''I want to kill myself'') emptyWorld
   \<and> completionCalls (snd (sendMessage timeoutProvider sampleEnvironment 1
        (firstMessage ''I want to kill myself'') emptyWorld)) = []
   \<and> (\<exists>conv um jm found. fst (sendMessage timeoutProvider sampleEnvironment 1
        (firstMessage ''I want to kill myself'') emptyWorld) = CrisisReply conv um jm HIGH found)"
proof -
  have p: "findProfile u emptyWorld = None" for u by (simp add: findProfile_def emptyWorld_def)
  have a: "rq_content (firstMessage ''I want to kill myself'') = Some ''I want to kill myself''"
    by (simp add: firstMessage_def)
  have b: "isCrisis (detectCrisis ''I want to kill myself'' (findProfile 1 emptyWorld))"
    by (simp add: p kill_myself_detected)
  have c: "accepted 1 (firstMessage ''I want to kill myself'') emptyWorld"
    by (rule firstMessage_accepted) (simp_all add: trim_kill_myself)
  have e: "completionCalls emptyWorld = []" by (simp add: emptyWorld_def)
  have k: "classification (detectCrisis ''I want to kill myself'' (findProfile 1 emptyWorld))
             = Some (HIGH, [''kill myself''])"
    by (simp add: p kill_myself_detected classification_def)
  show ?thesis
    using crisis_bypasses_provider[OF a b surjective_pairing, of timeoutProvider sampleEnvironment]
      a b c e k by auto
qed

subsection \<open>Accepted and rejected requests\<close>

text \<open>
  \<^bold>\<open>C3.\<close> Every accepted request (validated, conversation resolved)
  appends exactly the user message and one assistant message to the message table, and
  appends one crisis log row exactly when the classifier detects risk on the content; that
  row carries the detected tier, and its follow-up and admin-notified flags are set exactly
  when the tier is HIGH.
\<close>
theorem one_reply_per_accepted_message:
  assumes "accepted userId req w"
    and "rq_content req = Some content"
    and "sendMessage provider env userId req w = (r, w')"
  shows "(\<exists>um jm. chatMessages w' = chatMessages w @ [um, jm]
            \<and> cm_sender um = USER \<and> cm_sender jm = JOJO)
     \<and> length (filter (\<lambda>m. cm_sender m = JOJO) (chatMessages w'))
         = Suc (length (filter (\<lambda>m. cm_sender m = JOJO) (chatMessages w)))
     \<and> (case detectCrisis content (findProfile userId w) of
           NoCrisis \<Rightarrow> crisisLogs w' = crisisLogs w
         | Crisis level found reply rs hs \<Rightarrow>
             (\<exists>l. crisisLogs w' = crisisLogs w @ [l] \<and> cl_riskLevel l = level
                \<and> cl_keywords l = found
                \<and> cl_followUpNeeded l = (level = HIGH)
                \<and> cl_adminNotified l = (level = HIGH)))"
proof -
  from assms(1) obtain content' conv w0 where
    c: "rq_content req = Some content'"
    and rc: "resolveConversation env userId (rq_conversationId req) content' w = Some (conv, w0)"
    and s: "sendMessage provider env userId req w = answerMessage provider env userId content' conv w0"
    by (rule sendMessage_accepted)
  from c assms(2) have [simp]: "content' = content" by simp
  note rw = resolveConversation_world[OF rc]
  have p: "findProfile userId w0 = findProfile userId w" by (rule findProfile_cong[OF rw(5)])
  from s assms(3) have "answerMessage provider env userId content conv w0 = (r, w')" by simp
  then have w': "w' = snd (answerMessage provider env userId content conv w0)" by simp
  show ?thesis
  proof (cases "detectCrisis content (findProfile userId w)")
    case NoCrisis
    then have "detectCrisis content (findProfile userId w0) = NoCrisis" by (simp add: p)
    then obtain um jm w1 where
      "createMessage (cv_id conv) userId (trim content) USER TEXT None None None w0 = (um, w1)"
      "chatMessages (snd (answerMessage provider env userId content conv w0)) = chatMessages w0 @ [um, jm]"
      "cm_sender jm = JOJO"
      "crisisLogs (snd (answerMessage provider env userId content conv w0)) = crisisLogs w0"
      by (rule answerMessage_completion_effects)
    then show ?thesis
      using NoCrisis createMessage_result(4)[of "cv_id conv" userId "trim content" USER]
      by (auto simp: w' rw)
  next
    case (Crisis level found reply rs hs)
    then have "detectCrisis content (findProfile userId w0) = Crisis level found reply rs hs"
      by (simp add: p)
    then obtain um jm l where
      "chatMessages (snd (answerMessage provider env userId content conv w0)) = chatMessages w0 @ [um, jm]"
      "cm_sender um = USER" "cm_sender jm = JOJO"
      "crisisLogs (snd (answerMessage provider env userId content conv w0)) = crisisLogs w0 @ [l]"
      "cl_riskLevel l = level" "cl_keywords l = found"
      "cl_followUpNeeded l = (level = HIGH)" "cl_adminNotified l = (level = HIGH)"
      by (rule answerMessage_crisis_effects)
    then show ?thesis using Crisis by (auto simp: w' rw)
  qed
qed

theorem one_reply_per_accepted_message_witness:
  "accepted 1 (firstMessage ''I want to kill myself'') emptyWorld
   \<and> (\<exists>um jm l. chatMessages (snd (sendMessage timeoutProvider sampleEnvironment 1
          (firstMessage ''I want to kill myself'') emptyWorld)) = [um, jm]
        \<and> cm_sender um = USER \<and> cm_sender jm = JOJO
        \<and> crisisLogs (snd (sendMessage timeoutProvider sampleEnvironment 1
          (firstMessage ''I want to kill myself'') emptyWorld)) = [l]
        \<and> cl_riskLevel l = HIGH \<and> cl_followUpNeeded l \<and> cl_adminNotified l)"
proof -
  have p: "findProfile u emptyWorld = None" for u by (simp add: findProfile_def emptyWorld_def)
  have a: "rq_content (firstMessage ''I want to kill myself'') = Some ''I want to kill myself''"
    by (simp add: firstMessage_def)
  have c: "accepted 1 (firstMessage ''I want to kill myself'') emptyWorld"
    by (rule firstMessage_accepted) (simp_all add: trim_kill_myself)
  have e: "chatMessages emptyWorld = []" "crisisLogs emptyWorld = []"
    by (simp_all add: emptyWorld_def)
  show ?thesis
    using one_reply_per_accepted_message[OF c a surjective_pairing,
        of timeoutProvider sampleEnvironment] c
    by (auto simp: p kill_myself_detected e)
qed

lemma answerMessage_replies:
  "fst (answerMessage provider env userId content conv w) \<noteq> BadRequest problem"
proof (cases "detectCrisis content (findProfile userId w)")
  case NoCrisis
  then obtain um jm md where
    "fst (answerMessage provider env userId content conv w) = ChatReply conv um jm md"
    by (rule answerMessage_completion_effects)
  then show ?thesis by simp
next
  case (Crisis level found reply rs hs)
  then obtain um jm l where
    "fst (answerMessage provider env userId content conv w) = CrisisReply conv um jm level found"
    by (rule answerMessage_crisis_effects)
  then show ?thesis by simp
qed

text \<open>
  \<^bold>\<open>C5.\<close> Content of exactly 2000 characters that is not blank passes
  validation and is never answered with a validation error; content of 2001 characters,
  empty content and absent content are answered with a validation error and leave every
  table as it was.
\<close>
theorem content_length_boundary:
  "(rq_content req = Some content \<and> length content = 2000 \<and> trim content \<noteq> [] \<longrightarrow>
      validateContent (rq_content req) = Inr content
      \<and> (\<forall>problem. fst (sendMessage provider env userId req w) \<noteq> BadRequest problem)
      \<and> (rq_conversationId req = None \<longrightarrow> accepted userId req w))
   \<and> (rq_content req = Some content \<and> length content = 2001 \<longrightarrow>
      (\<exists>problem. sendMessage provider env userId req w = (BadRequest problem, w)))
   \<and> (rq_content req = None \<or> rq_content req = Some [] \<longrightarrow>
      sendMessage provider env userId req w = (BadRequest ''Message content is required'', w))"
proof (intro conjI impI allI)
  assume a: "rq_content req = Some content \<and> length content = 2000 \<and> trim content \<noteq> []"
  then show v: "validateContent (rq_content req) = Inr content"
    by (simp add: validateContent_Inr)
  show "fst (sendMessage provider env userId req w) \<noteq> BadRequest problem" for problem
    by (cases "resolveConversation env userId (rq_conversationId req) content w")
       (auto simp: sendMessage_def v answerMessage_replies)
  show "accepted userId req w" if "rq_conversationId req = None"
    using that v by (simp add: accepted_def)
next
  assume "rq_content req = Some content \<and> length content = 2001"
  then show "\<exists>problem. sendMessage provider env userId req w = (BadRequest problem, w)"
    by (simp add: sendMessage_def validateContent_def)
next
  assume "rq_content req = None \<or> rq_content req = Some []"
  then show "sendMessage provider env userId req w = (BadRequest ''Message content is required'', w)"
    by (auto simp: sendMessage_def validateContent_def)
qed

theorem content_length_boundary_witness:
  "length (replicate 2000 CHR ''a'') = 2000 \<and> trim (replicate 2000 CHR ''a'') \<noteq> []
   \<and> accepted 1 (firstMessage (replicate 2000 CHR ''a'')) emptyWorld
   \<and> (\<forall>problem. fst (sendMessage timeoutProvider sampleEnvironment 1
         (firstMessage (replicate 2000 CHR ''a'')) emptyWorld) \<noteq> BadRequest problem)
   \<and> length (replicate 2001 CHR ''a'') = 2001
   \<and> (\<exists>problem. sendMessage timeoutProvider sampleEnvironment 1
         (firstMessage (replicate 2001 CHR ''a'')) emptyWorld = (BadRequest problem, emptyWorld))
   \<and> sendMessage timeoutProvider sampleEnvironment 1 (firstMessage []) emptyWorld
        = (BadRequest ''Message content is required'', emptyWorld)"
proof -
  have t: "trim (replicate 2000 CHR ''a'') \<noteq> []"
    by (simp add: trim_Nil_iff isWhiteSpace_def code_def)
  have r: "rq_content (firstMessage x) = Some x" "rq_conversationId (firstMessage x) = None" for x
    by (simp_all add: firstMessage_def)
  show ?thesis
    using content_length_boundary[where req = "firstMessage (replicate 2000 CHR ''a'')"
        and content = "replicate 2000 CHR ''a''" and provider = timeoutProvider
        and env = sampleEnvironment and userId = 1 and w = emptyWorld]
      content_length_boundary[where req = "firstMessage (replicate 2001 CHR ''a'')"
        and content = "replicate 2001 CHR ''a''" and provider = timeoutProvider
        and env = sampleEnvironment and userId = 1 and w = emptyWorld]
      content_length_boundary[where req = "firstMessage []" and content = "[]"
        and provider = timeoutProvider and env = sampleEnvironment and userId = 1
        and w = emptyWorld] t r
    by simp
qed

text \<open>
  \<^bold>\<open>C10.\<close> Content that is not empty but consists of white space only is
  rejected with the validation error of empty content and changes nothing, exactly as empty
  content; and for an accepted request the stored user message carries the trimmed content.
\<close>
theorem blank_content_rejected_body_trimmed:
  "(rq_content req = Some content \<and> content \<noteq> [] \<and> (\<forall>c \<in> set content. isWhiteSpace c) \<longrightarrow>
      sendMessage provider env userId req w = (BadRequest ''Message content is required'', w)
      \<and> sendMessage provider env userId req w
          = sendMessage provider env userId (req\<lparr>rq_content := Some []\<rparr>) w)
   \<and> (accepted userId req w \<and> rq_content req = Some content \<longrightarrow>
        (\<exists>um jm. chatMessages (snd (sendMessage provider env userId req w))
                    = chatMessages w @ [um, jm]
           \<and> cm_sender um = USER \<and> cm_content um = trim content))"
proof (intro conjI impI)
  assume b: "rq_content req = Some content \<and> content \<noteq> [] \<and> (\<forall>c \<in> set content. isWhiteSpace c)"
  then have "trim content = []" by (simp add: trim_Nil_iff)
  with b show "sendMessage provider env userId req w = (BadRequest ''Message content is required'', w)"
    by (simp add: sendMessage_def validateContent_def)
  then show "sendMessage provider env userId req w
          = sendMessage provider env userId (req\<lparr>rq_content := Some []\<rparr>) w"
    by (simp add: sendMessage_def validateContent_def)
next
  assume a: "accepted userId req w \<and> rq_content req = Some content"
  then have "accepted userId req w" by simp
  then obtain content' conv w0 where
    c: "rq_content req = Some content'"
    and rc: "resolveConversation env userId (rq_conversationId req) content' w = Some (conv, w0)"
    and s: "sendMessage provider env userId req w = answerMessage provider env userId content' conv w0"
    by (rule sendMessage_accepted)
  from c a have [simp]: "content' = content" by simp
  note rw = resolveConversation_world[OF rc]
  have p: "findProfile userId w0 = findProfile userId w" by (rule findProfile_cong[OF rw(5)])
  show "\<exists>um jm. chatMessages (snd (sendMessage provider env userId req w)) = chatMessages w @ [um, jm]
           \<and> cm_sender um = USER \<and> cm_content um = trim content"
  proof (cases "detectCrisis content (findProfile userId w0)")
    case NoCrisis
    then obtain um jm w1 where
      "createMessage (cv_id conv) userId (trim content) USER TEXT None None None w0 = (um, w1)"
      "chatMessages (snd (answerMessage provider env userId content conv w0)) = chatMessages w0 @ [um, jm]"
      by (rule answerMessage_completion_effects)
    then show ?thesis
      using createMessage_result(3,4)[of "cv_id conv" userId "trim content" USER]
      by (auto simp: s rw)
  next
    case (Crisis level found reply rs hs)
    then obtain um jm l where
      "chatMessages (snd (answerMessage provider env userId content conv w0)) = chatMessages w0 @ [um, jm]"
      "cm_sender um = USER" "cm_content um = trim content"
      by (rule answerMessage_crisis_effects)
    then show ?thesis by (auto simp: s rw)
  qed
qed

theorem blank_content_rejected_body_trimmed_witness:
  "rq_content blankRequest = Some ''   '' \<and> ''   '' \<noteq> [] \<and> list_all isWhiteSpace ''   ''
   \<and> sendMessage timeoutProvider sampleEnvironment 1 blankRequest emptyWorld
        = (BadRequest ''Message content is required'', emptyWorld)
   \<and> accepted 1 (firstMessage ''  I want to kill myself '') emptyWorld
   \<and> (\<exists>um jm. chatMessages (snd (sendMessage timeoutProvider sampleEnvironment 1
          (firstMessage ''  I want to kill myself '') emptyWorld)) = [um, jm]
        \<and> cm_sender um = USER \<and> cm_content um = ''I want to kill myself'')"
proof -
  have b: "rq_content blankRequest = Some ''   '' \<and> ''   '' \<noteq> [] \<and> (\<forall>c \<in> set ''   ''. isWhiteSpace c)"
    by (simp add: blankRequest_def isWhiteSpace_def code_def)
  have t: "trim ''  I want to kill myself '' = ''I want to kill myself''"
    by (simp add: trim_def isWhiteSpace_def code_def)
  have a: "accepted 1 (firstMessage ''  I want to kill myself '') emptyWorld"
    by (rule firstMessage_accepted) (simp_all add: t)
  have r: "rq_content (firstMessage x) = Some x" for x by (simp add: firstMessage_def)
  have e: "chatMessages emptyWorld = []" by (simp add: emptyWorld_def)
  show ?thesis
    using blank_content_rejected_body_trimmed[where req = blankRequest and content = "''   ''"
        and provider = timeoutProvider and env = sampleEnvironment and userId = 1
        and w = emptyWorld]
      blank_content_rejected_body_trimmed[where req = "firstMessage ''  I want to kill myself ''"
        and content = "''  I want to kill myself ''" and provider = timeoutProvider
        and env = sampleEnvironment and userId = 1 and w = emptyWorld]
      a b r t e
    by (auto simp: list_all_iff)
qed

subsection \<open>The completion path\<close>

lemma find_map_same:
  assumes "\<And>x. P (f x) = P x"
  shows "find P (map f xs) = map_option f (find P xs)"
  by (induction xs) (simp_all add: assms)

lemma find_append_new:
  "find P (xs @ [y]) = (case find P xs of None \<Rightarrow> (if P y then Some y else None) | Some x \<Rightarrow> Some x)"
  by (induction xs) simp_all

lemma find_None_list_ex: "find P xs = None \<longleftrightarrow> \<not> list_ex P xs"
  by (induction xs) simp_all

lemma messagesCountOn_upsert:
  "messagesCountOn userId date (upsertAnalytics userId date responseTime w)
     = Suc (messagesCountOn userId date w)"
proof (cases "list_ex (isAnalyticsRow userId date) (chatAnalyticsRows w)")
  case True
  then obtain a where a: "find (isAnalyticsRow userId date) (chatAnalyticsRows w) = Some a"
    using find_None_list_ex[of "isAnalyticsRow userId date" "chatAnalyticsRows w"] by auto
  then have p: "isAnalyticsRow userId date a" by (auto simp: find_Some_iff)
  have "find (isAnalyticsRow userId date)
          (map (\<lambda>a. if isAnalyticsRow userId date a
                     then a\<lparr>ca_messagesCount := ca_messagesCount a + 1,
                            ca_conversationTime := ca_conversationTime a + minutesOf responseTime\<rparr>
                     else a) (chatAnalyticsRows w))
        = map_option (\<lambda>a. if isAnalyticsRow userId date a
                     then a\<lparr>ca_messagesCount := ca_messagesCount a + 1,
                            ca_conversationTime := ca_conversationTime a + minutesOf responseTime\<rparr>
                     else a) (find (isAnalyticsRow userId date) (chatAnalyticsRows w))"
    by (rule find_map_same) (simp add: isAnalyticsRow_def)
  then show ?thesis using True a p by (simp add: messagesCountOn_def upsertAnalytics_def)
next
  case False
  then have "find (isAnalyticsRow userId date) (chatAnalyticsRows w) = None"
    by (simp add: find_None_list_ex)
  then show ?thesis
    using False
    by (simp add: messagesCountOn_def upsertAnalytics_def find_append_new isAnalyticsRow_def)
qed

lemma messagesCountOn_cong:
  "chatAnalyticsRows w1 = chatAnalyticsRows w2 \<Longrightarrow>
   messagesCountOn userId date w1 = messagesCountOn userId date w2"
  by (simp add: messagesCountOn_def)

lemma obtainResponse_called:
  assumes "userContextOf prof \<noteq> None"
  shows "obtainResponse provider content prof h w =
     (((case provider (SystemPrompt prof # formatConversationHistory (take 5 h) @ [Turn ''user'' content]) of
          Completion t \<Rightarrow> analyzeResponse t content
        | ProviderError e \<Rightarrow> getFallbackResponse content prof), ''groq''),
      w\<lparr>completionCalls := completionCalls w
          @ [SystemPrompt prof # formatConversationHistory (take 5 h) @ [Turn ''user'' content]]\<rparr>)"
  using assms
  by (auto simp: obtainResponse_def generateJoJoResponse_def Let_def
           split: completion_outcome.splits)

lemma obtainResponse_not_called:
  "userContextOf prof = None \<Longrightarrow>
   obtainResponse provider content prof h w = ((routeFallback, ''fallback''), w)"
  by (simp add: obtainResponse_def)

text \<open>What a run that reaches the completion provider looks like.\<close>

lemma sendMessage_with_call:
  assumes s: "sendMessage provider env userId req w = (r, w')"
    and n: "completionCalls w' \<noteq> completionCalls w"
  obtains content conv w0 um jm md w1 where
    "rq_content req = Some content"
    "resolveConversation env userId (rq_conversationId req) content w = Some (conv, w0)"
    "createMessage (cv_id conv) userId (trim content) USER TEXT None None None w0 = (um, w1)"
    "r = ChatReply conv um jm md"
    "chatMessages w' = chatMessages w @ [um, jm]"
    "completionCalls w' = completionCalls w @
       [SystemPrompt (findProfile userId w)
          # formatConversationHistory (take 5 (recentMessages (cv_id conv) w1))
          @ [Turn ''user'' content]]"
    "cm_sender jm = JOJO"
    "cm_createdAt jm = Suc (clock w0)"
    "cm_content jm = ar_content
       (case provider (SystemPrompt (findProfile userId w)
          # formatConversationHistory (take 5 (recentMessages (cv_id conv) w1))
          @ [Turn ''user'' content]) of
          Completion t \<Rightarrow> analyzeResponse t content
        | ProviderError e \<Rightarrow> getFallbackResponse content (findProfile userId w))"
    "cm_messageType jm = mapMessageType (ar_type
       (case provider (SystemPrompt (findProfile userId w)
          # formatConversationHistory (take 5 (recentMessages (cv_id conv) w1))
          @ [Turn ''user'' content]) of
          Completion t \<Rightarrow> analyzeResponse t content
        | ProviderError e \<Rightarrow> getFallbackResponse content (findProfile userId w)))"
    "md_messageType md = (let t = ar_type
       (case provider (SystemPrompt (findProfile userId w)
          # formatConversationHistory (take 5 (recentMessages (cv_id conv) w1))
          @ [Turn ''user'' content]) of
          Completion t \<Rightarrow> analyzeResponse t content
        | ProviderError e \<Rightarrow> getFallbackResponse content (findProfile userId w))
        in if t = [] then ''SUGGESTION'' else t)"
    "chatAnalyticsRows w' = chatAnalyticsRows (upsertAnalytics userId (env_today env) (env_responseTime env) w)"
    "chatConversations w'
       = map (\<lambda>c. if cv_id c = cv_id conv then c\<lparr>cv_lastMessageAt := Some (Suc (Suc (clock w0)))\<rparr> else c)
           (chatConversations w0)"
    "conv \<in> set (chatConversations w0)"
proof -
  have acc: "accepted userId req w"
    using sendMessage_rejected(1)[of userId req w provider env] s n by auto
  then obtain content conv w0 where
    c: "rq_content req = Some content"
    and rc: "resolveConversation env userId (rq_conversationId req) content w = Some (conv, w0)"
    and a: "sendMessage provider env userId req w = answerMessage provider env userId content conv w0"
    by (rule sendMessage_accepted)
  note rw = resolveConversation_world[OF rc]
  have p: "findProfile userId w0 = findProfile userId w" by (rule findProfile_cong[OF rw(5)])
  from a s have e: "answerMessage provider env userId content conv w0 = (r, w')" by simp
  then have r: "r = fst (answerMessage provider env userId content conv w0)"
    and w': "w' = snd (answerMessage provider env userId content conv w0)" by simp_all
  have nc: "detectCrisis content (findProfile userId w0) = NoCrisis"
  proof (cases "detectCrisis content (findProfile userId w0)")
    case (Crisis level found reply rs hs)
    then obtain um jm l where
      "completionCalls (snd (answerMessage provider env userId content conv w0)) = completionCalls w0"
      by (rule answerMessage_crisis_effects)
    with n show ?thesis by (simp add: w' rw)
  qed simp
  from nc obtain um jm md ai aiProvider w1 w2 where
    um: "createMessage (cv_id conv) userId (trim content) USER TEXT None None None w0 = (um, w1)"
    and ob: "obtainResponse provider content (findProfile userId w0) (recentMessages (cv_id conv) w1) w1
       = ((ai, aiProvider), w2)"
    and f: "fst (answerMessage provider env userId content conv w0) = ChatReply conv um jm md"
      "chatMessages (snd (answerMessage provider env userId content conv w0)) = chatMessages w0 @ [um, jm]"
      "cm_sender jm = JOJO" "cm_content jm = ar_content ai"
      "cm_messageType jm = mapMessageType (ar_type ai)"
      "cm_createdAt jm = Suc (clock w0)"
      "md_messageType md = (if ar_type ai = [] then ''SUGGESTION'' else ar_type ai)"
      "completionCalls (snd (answerMessage provider env userId content conv w0)) = completionCalls w2"
      "chatAnalyticsRows (snd (answerMessage provider env userId content conv w0))
         = chatAnalyticsRows (upsertAnalytics userId (env_today env) (env_responseTime env) w0)"
      "chatConversations (snd (answerMessage provider env userId content conv w0))
         = map (\<lambda>c. if cv_id c = cv_id conv then c\<lparr>cv_lastMessageAt := Some (Suc (Suc (clock w0)))\<rparr> else c)
           (chatConversations w0)"
    by (rule answerMessage_completion_effects)
  have w1: "completionCalls w1 = completionCalls w"
    using createMessage_result(1)[OF um] by (simp add: rw)
  have uc: "userContextOf (findProfile userId w0) \<noteq> None"
  proof
    assume "userContextOf (findProfile userId w0) = None"
    from obtainResponse_not_called[OF this] ob have "w2 = w1" by simp
    with n f w1 show False by (simp add: w')
  qed
  from uc have uc': "userContextOf (findProfile userId w) \<noteq> None" by (simp add: p)
  from ob have ob': "obtainResponse provider content (findProfile userId w)
      (recentMessages (cv_id conv) w1) w1 = ((ai, aiProvider), w2)" by (simp add: p)
  from obtainResponse_called[OF uc', of provider content "recentMessages (cv_id conv) w1" w1] ob'
  have ai: "ai = (case provider (SystemPrompt (findProfile userId w)
          # formatConversationHistory (take 5 (recentMessages (cv_id conv) w1))
          @ [Turn ''user'' content]) of
          Completion t \<Rightarrow> analyzeResponse t content
        | ProviderError e \<Rightarrow> getFallbackResponse content (findProfile userId w))"
    and w2: "completionCalls w2 = completionCalls w @
       [SystemPrompt (findProfile userId w)
          # formatConversationHistory (take 5 (recentMessages (cv_id conv) w1))
          @ [Turn ''user'' content]]"
    by (auto simp: w1)
  have an: "chatAnalyticsRows (upsertAnalytics userId (env_today env) (env_responseTime env) w0)
      = chatAnalyticsRows (upsertAnalytics userId (env_today env) (env_responseTime env) w)"
    by (simp add: upsertAnalytics_def rw)
  show thesis
    by (rule that[OF c rc um, of jm md])
       (simp_all add: r w' f rw w2 an Let_def flip: ai)
qed

subsubsection \<open>Runs that reach the provider\<close>

lemma formatConversationHistory_recent:
  "formatConversationHistory (take 5 (recentMessages cid w))
     = map formatTurn (take 5 (rev (sort_key cm_createdAt
         (filter (\<lambda>m. cm_conversationId m = cid) (chatMessages w)))))"
  by (simp add: formatConversationHistory_def lastFive_def recentMessages_def)

lemma lastMessageAtOf_stamped:
  assumes "conv \<in> set cs"
    and "chatConversations w'
       = map (\<lambda>c. if cv_id c = cv_id conv then c\<lparr>cv_lastMessageAt := Some t\<rparr> else c) cs"
  shows "lastMessageAtOf (cv_id conv) w' = Some t"
proof -
  have "find (\<lambda>c. cv_id c = cv_id conv) cs \<noteq> None"
    using assms(1) by (auto simp: find_None_iff)
  then obtain c where c: "find (\<lambda>c. cv_id c = cv_id conv) cs = Some c" by auto
  then have i: "cv_id c = cv_id conv" by (auto simp: find_Some_iff)
  have "find (\<lambda>c. cv_id c = cv_id conv)
          (map (\<lambda>c. if cv_id c = cv_id conv then c\<lparr>cv_lastMessageAt := Some t\<rparr> else c) cs)
        = map_option (\<lambda>c. if cv_id c = cv_id conv then c\<lparr>cv_lastMessageAt := Some t\<rparr> else c)
            (find (\<lambda>c. cv_id c = cv_id conv) cs)"
    by (rule find_map_same) simp
  then show ?thesis by (simp add: lastMessageAtOf_def assms(2) c i)
qed

text \<open>A run in which a request is sent to the completion provider.\<close>

lemma completion_run:
  assumes s: "sendMessage provider env userId req w = (r, w')"
    and c: "completionCalls w' = completionCalls w @ [request]"
  obtains content conv um jm md where
    "rq_content req = Some content"
    "r = ChatReply conv um jm md"
    "chatMessages w' = chatMessages w @ [um, jm]"
    "cm_sender jm = JOJO"
    "cm_conversationId um = cv_id conv"
    "request = SystemPrompt (findProfile userId w)
       # map formatTurn (take 5 (rev (sort_key cm_createdAt
           (filter (\<lambda>m. cm_conversationId m = cv_id conv) (chatMessages w @ [um])))))
       @ [Turn ''user'' content]"
    "cm_content jm = ar_content
       (case provider request of
          Completion t \<Rightarrow> analyzeResponse t content
        | ProviderError e \<Rightarrow> getFallbackResponse content (findProfile userId w))"
    "cm_messageType jm = mapMessageType (ar_type
       (case provider request of
          Completion t \<Rightarrow> analyzeResponse t content
        | ProviderError e \<Rightarrow> getFallbackResponse content (findProfile userId w)))"
    "md_messageType md = (let t = ar_type
       (case provider request of
          Completion t \<Rightarrow> analyzeResponse t content
        | ProviderError e \<Rightarrow> getFallbackResponse content (findProfile userId w))
        in if t = [] then ''SUGGESTION'' else t)"
    "lastMessageAtOf (cv_id conv) w' = Some (Suc (cm_createdAt jm))"
    "messagesCountOn userId (env_today env) w' = Suc (messagesCountOn userId (env_today env) w)"
proof -
  from c have n: "completionCalls w' \<noteq> completionCalls w" by simp
  from s n obtain content conv w0 um jm md w1 where
    f: "rq_content req = Some content"
      "resolveConversation env userId (rq_conversationId req) content w = Some (conv, w0)"
      "createMessage (cv_id conv) userId (trim content) USER TEXT None None None w0 = (um, w1)"
      "r = ChatReply conv um jm md"
      "chatMessages w' = chatMessages w @ [um, jm]"
      "completionCalls w' = completionCalls w @
         [SystemPrompt (findProfile userId w)
            # formatConversationHistory (take 5 (recentMessages (cv_id conv) w1))
            @ [Turn ''user'' content]]"
      "cm_sender jm = JOJO"
      "cm_createdAt jm = Suc (clock w0)"
      "cm_content jm = ar_content
         (case provider (SystemPrompt (findProfile userId w)
            # formatConversationHistory (take 5 (recentMessages (cv_id conv) w1))
            @ [Turn ''user'' content]) of
            Completion t \<Rightarrow> analyzeResponse t content
          | ProviderError e \<Rightarrow> getFallbackResponse content (findProfile userId w))"
      "cm_messageType jm = mapMessageType (ar_type
         (case provider (SystemPrompt (findProfile userId w)
            # formatConversationHistory (take 5 (recentMessages (cv_id conv) w1))
            @ [Turn ''user'' content]) of
            Completion t \<Rightarrow> analyzeResponse t content
          | ProviderError e \<Rightarrow> getFallbackResponse content (findProfile userId w)))"
      "md_messageType md = (let t = ar_type
         (case provider (SystemPrompt (findProfile userId w)
            # formatConversationHistory (take 5 (recentMessages (cv_id conv) w1))
            @ [Turn ''user'' content]) of
            Completion t \<Rightarrow> analyzeResponse t content
          | ProviderError e \<Rightarrow> getFallbackResponse content (findProfile userId w))
          in if t = [] then ''SUGGESTION'' else t)"
      "chatAnalyticsRows w' = chatAnalyticsRows (upsertAnalytics userId (env_today env) (env_responseTime env) w)"
      "chatConversations w'
         = map (\<lambda>c. if cv_id c = cv_id conv then c\<lparr>cv_lastMessageAt := Some (Suc (Suc (clock w0)))\<rparr> else c)
             (chatConversations w0)"
      "conv \<in> set (chatConversations w0)"
    by (rule sendMessage_with_call)
  note rw = resolveConversation_world[OF f(2)]
  note u = createMessage_result[OF f(3)]
  have q: "request = SystemPrompt (findProfile userId w)
            # formatConversationHistory (take 5 (recentMessages (cv_id conv) w1))
            @ [Turn ''user'' content]"
    using c f(6) by simp
  have m1: "chatMessages w1 = chatMessages w @ [um]" by (subst u(1)) (simp add: rw)
  have h: "formatConversationHistory (take 5 (recentMessages (cv_id conv) w1))
        = map formatTurn (take 5 (rev (sort_key cm_createdAt
           (filter (\<lambda>m. cm_conversationId m = cv_id conv) (chatMessages w @ [um])))))"
    by (simp only: formatConversationHistory_recent m1)
  have st: "lastMessageAtOf (cv_id conv) w' = Some (Suc (cm_createdAt jm))"
    using lastMessageAtOf_stamped[OF f(14) f(13)] f(8) by simp
  have mc: "messagesCountOn userId (env_today env) w' = Suc (messagesCountOn userId (env_today env) w)"
    using messagesCountOn_cong[OF f(12)] by (simp add: messagesCountOn_upsert)
  show thesis
    by (rule that[OF f(1) f(4) f(5) f(7) u(2)])
       (simp_all only: q[symmetric] f(9,10,11) st mc, simp add: q h)
qed

subsubsection \<open>A failing provider\<close>

lemmas run_eval =
  sendMessage_def firstMessage_def validateContent_def trim_def isWhiteSpace_def
  resolveConversation_def createConversation_def generateTitle_def upperChar_def isLowerCase_def
  answerMessage_def createMessage_def findProfile_def recentMessages_def
  detectCrisis_def HIGH_RISK_def MEDIUM_RISK_def LOW_RISK_def string_eval
  completionPath_def obtainResponse_def userContextOf_def generateJoJoResponse_def
  formatConversationHistory_def lastFive_def formatTurn_def
  getFallbackResponse_def profileFirstName_def analyzeResponse_def
  mapMessageType_def typeMapping_def touchConversation_def upsertAnalytics_def
  isAnalyticsRow_def minutesOf_def sampleEnvironment_def Let_def

lemma workout_run_calls:
  "completionCalls (snd (sendMessage provider sampleEnvironment 1
      (firstMessage ''What's a good beginner workout?'') trackedWorld))
   = completionCalls trackedWorld @
     [ [SystemPrompt None, Turn ''user'' ''What's a good beginner workout?'',
       Turn ''user'' ''What's a good beginner workout?'']]"
  by (cases "provider [SystemPrompt None, Turn ''user'' ''What's a good beginner workout?'',
       Turn ''user'' ''What's a good beginner workout?'']")
     (simp_all add: run_eval trackedWorld_def)

lemma mapMessageType_SUGGESTION: "mapMessageType ''SUGGESTION'' = TEXT"
  by (simp add: mapMessageType_def typeMapping_def)

lemma provider_failure_effects:
  assumes s: "sendMessage provider env userId req w = (r, w')"
    and c: "completionCalls w' = completionCalls w @ [request]"
    and f: "provider request = ProviderError reason"
  shows "\<exists>conv um jm md.
       r = ChatReply conv um jm md
     \<and> chatMessages w' = chatMessages w @ [um, jm]
     \<and> cm_sender jm = JOJO
     \<and> cm_messageType jm = TEXT
     \<and> md_messageType md = ''SUGGESTION''
     \<and> cm_content jm = ''Hi there! '' @ fallbackMenu
     \<and> lastMessageAtOf (cv_id conv) w' = Some (Suc (cm_createdAt jm))
     \<and> messagesCountOn userId (env_today env) w'
         = Suc (messagesCountOn userId (env_today env) w)"
proof -
  from s c obtain content conv um jm md where
    "r = ChatReply conv um jm md"
    "chatMessages w' = chatMessages w @ [um, jm]"
    "cm_sender jm = JOJO"
    "cm_content jm = ar_content
       (case provider request of
          Completion t \<Rightarrow> analyzeResponse t content
        | ProviderError e \<Rightarrow> getFallbackResponse content (findProfile userId w))"
    "cm_messageType jm = mapMessageType (ar_type
       (case provider request of
          Completion t \<Rightarrow> analyzeResponse t content
        | ProviderError e \<Rightarrow> getFallbackResponse content (findProfile userId w)))"
    "md_messageType md = (let t = ar_type
       (case provider request of
          Completion t \<Rightarrow> analyzeResponse t content
        | ProviderError e \<Rightarrow> getFallbackResponse content (findProfile userId w))
        in if t = [] then ''SUGGESTION'' else t)"
    "lastMessageAtOf (cv_id conv) w' = Some (Suc (cm_createdAt jm))"
    "messagesCountOn userId (env_today env) w' = Suc (messagesCountOn userId (env_today env) w)"
    by (rule completion_run)
  then show ?thesis
    by (simp add: f getFallbackResponse_def profileFirstName_def mapMessageType_SUGGESTION)
qed

text \<open>
  \<^bold>\<open>C4.\<close> (As the code has it.) When the request sent to the completion
  provider fails, the adapter answers with its fixed fallback text; the stored assistant
  message has type TEXT while the response metadata reports SUGGESTION, the conversation's
  timestamp is set after the assistant message, and the day's analytics count of the user
  grows by one, as for a completion that succeeds.
\<close>
theorem provider_failure_fallback:
  assumes "sendMessage provider env userId req w = (r, w')"
    and "completionCalls w' = completionCalls w @ [request]"
    and "provider request = ProviderError reason"
  shows "\<exists>conv um jm md.
       r = ChatReply conv um jm md
     \<and> chatMessages w' = chatMessages w @ [um, jm]
     \<and> cm_sender jm = JOJO
     \<and> cm_messageType jm = TEXT
     \<and> md_messageType md = ''SUGGESTION''
     \<and> cm_content jm = ''Hi there! '' @ fallbackMenu
     \<and> lastMessageAtOf (cv_id conv) w' = Some (Suc (cm_createdAt jm))
     \<and> messagesCountOn userId (env_today env) w'
         = Suc (messagesCountOn userId (env_today env) w)"
  using assms by (rule provider_failure_effects)

theorem provider_failure_fallback_witness:
  "completionCalls (snd (sendMessage timeoutProvider sampleEnvironment 1
      (firstMessage ''What's a good beginner workout?'') trackedWorld))
     = completionCalls trackedWorld @
       [ [SystemPrompt None, Turn ''user'' ''What's a good beginner workout?'',
         Turn ''user'' ''What's a good beginner workout?'']]
   \<and> timeoutProvider [SystemPrompt None, Turn ''user'' ''What's a good beginner workout?'',
         Turn ''user'' ''What's a good beginner workout?'']
       = ProviderError ''timeout of 30000ms exceeded''
   \<and> (\<exists>conv um jm md.
         fst (sendMessage timeoutProvider sampleEnvironment 1
           (firstMessage ''What's a good beginner workout?'') trackedWorld)
           = ChatReply conv um jm md
       \<and> cm_messageType jm = TEXT \<and> md_messageType md = ''SUGGESTION'')
   \<and> messagesCountOn 1 (env_today sampleEnvironment)
        (snd (sendMessage timeoutProvider sampleEnvironment 1
           (firstMessage ''What's a good beginner workout?'') trackedWorld))
       = Suc (messagesCountOn 1 (env_today sampleEnvironment) trackedWorld)"
proof -
  have f: "timeoutProvider [SystemPrompt None, Turn ''user'' ''What's a good beginner workout?'',
         Turn ''user'' ''What's a good beginner workout?'']
       = ProviderError ''timeout of 30000ms exceeded''"
    by (simp add: timeoutProvider_def)
  have s: "sendMessage timeoutProvider sampleEnvironment 1
      (firstMessage ''What's a good beginner workout?'') trackedWorld
    = (fst (sendMessage timeoutProvider sampleEnvironment 1
         (firstMessage ''What's a good beginner workout?'') trackedWorld),
       snd (sendMessage timeoutProvider sampleEnvironment 1
         (firstMessage ''What's a good beginner workout?'') trackedWorld))"
    by simp
  note c = workout_run_calls[of timeoutProvider]
  show ?thesis
    using provider_failure_fallback[OF s c f] c f by (simp add: sampleEnvironment_def) blast
qed

text \<open>
  With a provider that times out, the assistant message is stored with type TEXT, not
  SUGGESTION, and the day's count goes from 3 to 4.
\<close>

theorem provider_failure_counterexample:
  "timeoutProvider [SystemPrompt None, Turn ''user'' ''What's a good beginner workout?'',
         Turn ''user'' ''What's a good beginner workout?'']
     = ProviderError ''timeout of 30000ms exceeded''
   \<and> completionCalls (snd (sendMessage timeoutProvider sampleEnvironment 1
        (firstMessage ''What's a good beginner workout?'') trackedWorld))
     = [ [SystemPrompt None, Turn ''user'' ''What's a good beginner workout?'',
         Turn ''user'' ''What's a good beginner workout?'']]
   \<and> cm_sender (last (chatMessages (snd (sendMessage timeoutProvider sampleEnvironment 1
        (firstMessage ''What's a good beginner workout?'') trackedWorld)))) = JOJO
   \<and> cm_messageType (last (chatMessages (snd (sendMessage timeoutProvider sampleEnvironment 1
        (firstMessage ''What's a good beginner workout?'') trackedWorld)))) = TEXT
   \<and> cm_messageType (last (chatMessages (snd (sendMessage timeoutProvider sampleEnvironment 1
        (firstMessage ''What's a good beginner workout?'') trackedWorld)))) \<noteq> SUGGESTION
   \<and> messagesCountOn 1 7 trackedWorld = 3
   \<and> messagesCountOn 1 7 (snd (sendMessage timeoutProvider sampleEnvironment 1
        (firstMessage ''What's a good beginner workout?'') trackedWorld)) = 4"
  by (simp add: run_eval timeoutProvider_def trackedWorld_def messagesCountOn_def)

subsubsection \<open>The workout question\<close>

lemma analyzeType_tags:
  "analyzeType response userInput \<in>
     {''SUGGESTION'', ''EXERCISE'', ''NUTRITION'', ''MENTAL_HEALTH'', ''SLEEP'', ''GREETING''}"
  by (simp add: analyzeType_def Let_def)

lemma mapMessageType_analyzeType:
  "mapMessageType (analyzeType response userInput)
     = (if analyzeType response userInput = ''NUTRITION'' then RECIPE else TEXT)"
  using analyzeType_tags[of response userInput]
  by (auto simp: mapMessageType_def typeMapping_def)

lemma analyzeType_nonempty: "analyzeType response userInput \<noteq> []"
  using analyzeType_tags[of response userInput] by auto

lemma workout_question_no_greeting:
  "\<not> includesAny (toLowerCase ''What's a good beginner workout?'') [''hello'', ''hi'', ''hey'']"
  by (simp add: includesAny_def string_eval)

lemma workout_completion_effects:
  assumes q: "rq_content req = Some ''What's a good beginner workout?''"
    and s: "sendMessage provider env userId req w = (r, w')"
    and c: "completionCalls w' = completionCalls w @ [request]"
    and f: "provider request = Completion reply"
  shows "\<exists>conv um jm md.
       r = ChatReply conv um jm md
     \<and> chatMessages w' = chatMessages w @ [um, jm]
     \<and> cm_sender jm = JOJO
     \<and> cm_content jm = reply
     \<and> md_messageType md = analyzeType reply ''What's a good beginner workout?''
     \<and> cm_messageType jm = (if md_messageType md = ''NUTRITION'' then RECIPE else TEXT)
     \<and> cm_messageType jm \<noteq> EXERCISE
     \<and> (includesAny (toLowerCase reply) [''workout'', ''exercise'', ''training'', ''fitness'']
          \<and> \<not> includesAny (toLowerCase reply)
                [''nutrition'', ''meal'', ''diet'', ''food'', ''recipe'', ''calories'']
          \<and> \<not> includesAny (toLowerCase reply)
                [''stress'', ''anxiety'', ''mental'', ''meditation'', ''mindfulness'']
          \<and> \<not> includesAny (toLowerCase reply) [''sleep'', ''rest'', ''recovery'']
          \<longrightarrow> md_messageType md = ''EXERCISE'' \<and> cm_messageType jm = TEXT)
     \<and> messagesCountOn userId (env_today env) w'
         = Suc (messagesCountOn userId (env_today env) w)"
proof -
  from s c obtain content conv um jm md where
    e: "rq_content req = Some content"
    "r = ChatReply conv um jm md"
    "chatMessages w' = chatMessages w @ [um, jm]"
    "cm_sender jm = JOJO"
    "cm_content jm = ar_content
       (case provider request of
          Completion t \<Rightarrow> analyzeResponse t content
        | ProviderError e \<Rightarrow> getFallbackResponse content (findProfile userId w))"
    "cm_messageType jm = mapMessageType (ar_type
       (case provider request of
          Completion t \<Rightarrow> analyzeResponse t content
        | ProviderError e \<Rightarrow> getFallbackResponse content (findProfile userId w)))"
    "md_messageType md = (let t = ar_type
       (case provider request of
          Completion t \<Rightarrow> analyzeResponse t content
        | ProviderError e \<Rightarrow> getFallbackResponse content (findProfile userId w))
        in if t = [] then ''SUGGESTION'' else t)"
    "lastMessageAtOf (cv_id conv) w' = Some (Suc (cm_createdAt jm))"
    "messagesCountOn userId (env_today env) w' = Suc (messagesCountOn userId (env_today env) w)"
    by (rule completion_run)
  from e(1) q have [simp]: "content = ''What's a good beginner workout?''" by simp
  have m: "md_messageType md = analyzeType reply ''What's a good beginner workout?''"
    using e(7) by (simp add: f analyzeResponse_def analyzeType_nonempty Let_def)
  have t: "cm_messageType jm = (if md_messageType md = ''NUTRITION'' then RECIPE else TEXT)"
    using e(6) by (simp add: f analyzeResponse_def m mapMessageType_analyzeType)
  have x: "analyzeType reply ''What's a good beginner workout?'' = ''EXERCISE''"
    if "includesAny (toLowerCase reply) [''workout'', ''exercise'', ''training'', ''fitness'']"
      "\<not> includesAny (toLowerCase reply)
                [''nutrition'', ''meal'', ''diet'', ''food'', ''recipe'', ''calories'']"
      "\<not> includesAny (toLowerCase reply)
                [''stress'', ''anxiety'', ''mental'', ''meditation'', ''mindfulness'']"
      "\<not> includesAny (toLowerCase reply) [''sleep'', ''rest'', ''recovery'']"
    using that workout_question_no_greeting by (simp add: analyzeType_def Let_def)
  have c: "cm_content jm = reply" using e(5) by (simp add: f analyzeResponse_def)
  show ?thesis
    using e(2,3,4,9) m t x c by (intro exI[of _ conv] exI[of _ um] exI[of _ jm] exI[of _ md]) auto
qed

text \<open>
  \<^bold>\<open>C7.\<close> (As the code has it.) When the user sends ''What's a good
  beginner workout?'' and the provider succeeds, the stored assistant message carries the
  reply with type TEXT, or RECIPE when the reply is tagged NUTRITION, and never EXERCISE;
  the response metadata reports EXERCISE when the reply names a fitness term and no
  nutrition, mental-health or sleep term; and the day's analytics count grows by exactly
  one.
\<close>
theorem workout_question_stored_as_text:
  assumes "rq_content req = Some ''What's a good beginner workout?''"
    and "sendMessage provider env userId req w = (r, w')"
    and "completionCalls w' = completionCalls w @ [request]"
    and "provider request = Completion reply"
  shows "\<exists>conv um jm md.
       r = ChatReply conv um jm md
     \<and> chatMessages w' = chatMessages w @ [um, jm]
     \<and> cm_sender jm = JOJO
     \<and> cm_content jm = reply
     \<and> md_messageType md = analyzeType reply ''What's a good beginner workout?''
     \<and> cm_messageType jm = (if md_messageType md = ''NUTRITION'' then RECIPE else TEXT)
     \<and> cm_messageType jm \<noteq> EXERCISE
     \<and> (includesAny (toLowerCase reply) [''workout'', ''exercise'', ''training'', ''fitness'']
          \<and> \<not> includesAny (toLowerCase reply)
                [''nutrition'', ''meal'', ''diet'', ''food'', ''recipe'', ''calories'']
          \<and> \<not> includesAny (toLowerCase reply)
                [''stress'', ''anxiety'', ''mental'', ''meditation'', ''mindfulness'']
          \<and> \<not> includesAny (toLowerCase reply) [''sleep'', ''rest'', ''recovery'']
          \<longrightarrow> md_messageType md = ''EXERCISE'' \<and> cm_messageType jm = TEXT)
     \<and> messagesCountOn userId (env_today env) w'
         = Suc (messagesCountOn userId (env_today env) w)"
  using assms by (rule workout_completion_effects)

lemma simple_workout_reply:
  "includesAny (toLowerCase ''Start with a simple workout.'')
     [''workout'', ''exercise'', ''training'', ''fitness'']
   \<and> \<not> includesAny (toLowerCase ''Start with a simple workout.'')
         [''nutrition'', ''meal'', ''diet'', ''food'', ''recipe'', ''calories'']
   \<and> \<not> includesAny (toLowerCase ''Start with a simple workout.'')
         [''stress'', ''anxiety'', ''mental'', ''meditation'', ''mindfulness'']
   \<and> \<not> includesAny (toLowerCase ''Start with a simple workout.'') [''sleep'', ''rest'', ''recovery'']"
  by (simp add: includesAny_def string_eval)

theorem workout_question_stored_as_text_witness:
  "rq_content (firstMessage ''What's a good beginner workout?'')
     = Some ''What's a good beginner workout?''
   \<and> completionCalls (snd (sendMessage workoutProvider sampleEnvironment 1
        (firstMessage ''What's a good beginner workout?'') trackedWorld))
     = completionCalls trackedWorld @
       [ [SystemPrompt None, Turn ''user'' ''What's a good beginner workout?'',
         Turn ''user'' ''What's a good beginner workout?'']]
   \<and> workoutProvider [SystemPrompt None, Turn ''user'' ''What's a good beginner workout?'',
         Turn ''user'' ''What's a good beginner workout?'']
       = Completion ''Start with a simple workout.''
   \<and> includesAny (toLowerCase ''Start with a simple workout.'')
         [''workout'', ''exercise'', ''training'', ''fitness'']
   \<and> \<not> includesAny (toLowerCase ''Start with a simple workout.'')
         [''nutrition'', ''meal'', ''diet'', ''food'', ''recipe'', ''calories'']
   \<and> \<not> includesAny (toLowerCase ''Start with a simple workout.'')
         [''stress'', ''anxiety'', ''mental'', ''meditation'', ''mindfulness'']
   \<and> \<not> includesAny (toLowerCase ''Start with a simple workout.'')
         [''sleep'', ''rest'', ''recovery'']
   \<and> (\<exists>conv um jm md.
         fst (sendMessage workoutProvider sampleEnvironment 1
           (firstMessage ''What's a good beginner workout?'') trackedWorld)
           = ChatReply conv um jm md
       \<and> md_messageType md = ''EXERCISE'' \<and> cm_messageType jm = TEXT)
   \<and> messagesCountOn 1 (env_today sampleEnvironment)
        (snd (sendMessage workoutProvider sampleEnvironment 1
           (firstMessage ''What's a good beginner workout?'') trackedWorld))
       = Suc (messagesCountOn 1 (env_today sampleEnvironment) trackedWorld)"
proof -
  have q: "rq_content (firstMessage ''What's a good beginner workout?'')
     = Some ''What's a good beginner workout?''"
    by (simp add: firstMessage_def)
  have f: "workoutProvider [SystemPrompt None, Turn ''user'' ''What's a good beginner workout?'',
         Turn ''user'' ''What's a good beginner workout?'']
       = Completion ''Start with a simple workout.''"
    by (simp add: workoutProvider_def)
  have s: "sendMessage workoutProvider sampleEnvironment 1
      (firstMessage ''What's a good beginner workout?'') trackedWorld
    = (fst (sendMessage workoutProvider sampleEnvironment 1
         (firstMessage ''What's a good beginner workout?'') trackedWorld),
       snd (sendMessage workoutProvider sampleEnvironment 1
         (firstMessage ''What's a good beginner workout?'') trackedWorld))"
    by simp
  note c = workout_run_calls[of workoutProvider]
  note w = simple_workout_reply
  from workout_question_stored_as_text[OF q s c f] w
  have "\<exists>conv um jm md.
         fst (sendMessage workoutProvider sampleEnvironment 1
           (firstMessage ''What's a good beginner workout?'') trackedWorld)
           = ChatReply conv um jm md
       \<and> md_messageType md = ''EXERCISE'' \<and> cm_messageType jm = TEXT"
    and "messagesCountOn 1 (env_today sampleEnvironment)
        (snd (sendMessage workoutProvider sampleEnvironment 1
           (firstMessage ''What's a good beginner workout?'') trackedWorld))
       = Suc (messagesCountOn 1 (env_today sampleEnvironment) trackedWorld)"
    by blast+
  then show ?thesis using q c f w by blast
qed

text \<open>
  With a reply that is tagged EXERCISE, the assistant message is stored with type TEXT.
\<close>

theorem workout_question_counterexample:
  "workoutProvider [SystemPrompt None, Turn ''user'' ''What's a good beginner workout?'',
         Turn ''user'' ''What's a good beginner workout?'']
     = Completion ''Start with a simple workout.''
   \<and> completionCalls (snd (sendMessage workoutProvider sampleEnvironment 1
        (firstMessage ''What's a good beginner workout?'') emptyWorld))
     = [ [SystemPrompt None, Turn ''user'' ''What's a good beginner workout?'',
         Turn ''user'' ''What's a good beginner workout?'']]
   \<and> analyzeType ''Start with a simple workout.'' ''What's a good beginner workout?''
     = ''EXERCISE''
   \<and> cm_sender (last (chatMessages (snd (sendMessage workoutProvider sampleEnvironment 1
        (firstMessage ''What's a good beginner workout?'') emptyWorld)))) = JOJO
   \<and> cm_content (last (chatMessages (snd (sendMessage workoutProvider sampleEnvironment 1
        (firstMessage ''What's a good beginner workout?'') emptyWorld))))
     = ''Start with a simple workout.''
   \<and> cm_messageType (last (chatMessages (snd (sendMessage workoutProvider sampleEnvironment 1
        (firstMessage ''What's a good beginner workout?'') emptyWorld)))) = TEXT
   \<and> cm_messageType (last (chatMessages (snd (sendMessage workoutProvider sampleEnvironment 1
        (firstMessage ''What's a good beginner workout?'') emptyWorld)))) \<noteq> EXERCISE"
  by (simp add: run_eval workoutProvider_def emptyWorld_def analyzeType_def includesAny_def)

subsubsection \<open>The history sent to the provider\<close>

lemma formatTurn_text:
  "\<exists>text. formatTurn m = Turn (if cm_sender m = USER then ''user'' else ''assistant'') text
     \<and> length text \<le> 1003
     \<and> text = (if length (cm_content m) > 1000 then take 1000 (cm_content m) @ ''...''
               else cm_content m)"
  by (simp add: formatTurn_def)

lemma mset_take_subset: "mset (take n ys) \<subseteq># mset ys"
proof -
  have "mset ys = mset (take n ys) + mset (drop n ys)"
    by (metis append_take_drop_id mset_append)
  then show ?thesis by simp
qed

lemma newest_first_sorted:
  "sorted_wrt (\<lambda>a b. cm_createdAt b \<le> cm_createdAt a) (rev (sort_key cm_createdAt ms))"
proof -
  have "sorted (map cm_createdAt (sort_key cm_createdAt ms))" by (rule sorted_sort_key)
  then have "sorted_wrt (\<lambda>a b. cm_createdAt a \<le> cm_createdAt b) (sort_key cm_createdAt ms)"
    by (simp add: sorted_map)
  then show ?thesis by (simp add: sorted_wrt_rev)
qed

lemma taken_dominate_rest:
  assumes "sorted_wrt P ys" and "h \<in> set (take n ys)" and "m \<in> set ys" and "m \<notin> set (take n ys)"
  shows "P h m"
proof -
  have "set ys = set (take n ys) \<union> set (drop n ys)"
    by (metis append_take_drop_id set_append)
  with assms(3,4) have d: "m \<in> set (drop n ys)" by blast
  from assms(1) have "sorted_wrt P (take n ys @ drop n ys)" by simp
  then show ?thesis using assms(2) d unfolding sorted_wrt_append by blast
qed

lemma history_effects:
  assumes s: "sendMessage provider env userId req w = (r, w')"
    and c: "completionCalls w' = completionCalls w @ [request]"
  shows "\<exists>content conv um jm md history.
       rq_content req = Some content
     \<and> r = ChatReply conv um jm md
     \<and> chatMessages w' = chatMessages w @ [um, jm]
     \<and> request = SystemPrompt (findProfile userId w) # map formatTurn history
                   @ [Turn ''user'' content]
     \<and> mset history
         \<subseteq># mset (filter (\<lambda>m. cm_conversationId m = cv_id conv) (chatMessages w @ [um]))
     \<and> length history
         = min 5 (length (filter (\<lambda>m. cm_conversationId m = cv_id conv) (chatMessages w @ [um])))
     \<and> (\<forall>h \<in> set history. \<forall>m \<in> set (chatMessages w @ [um]).
           cm_conversationId m = cv_id conv \<and> m \<notin> set history \<longrightarrow>
           cm_createdAt m \<le> cm_createdAt h)
     \<and> (\<forall>m \<in> set history. \<exists>text.
           formatTurn m = Turn (if cm_sender m = USER then ''user'' else ''assistant'') text
           \<and> length text \<le> 1003
           \<and> text = (if length (cm_content m) > 1000 then take 1000 (cm_content m) @ ''...''
                     else cm_content m))"
proof -
  from s c obtain content conv um jm md where
    e: "rq_content req = Some content"
    "r = ChatReply conv um jm md"
    "chatMessages w' = chatMessages w @ [um, jm]"
    "request = SystemPrompt (findProfile userId w)
       # map formatTurn (take 5 (rev (sort_key cm_createdAt
           (filter (\<lambda>m. cm_conversationId m = cv_id conv) (chatMessages w @ [um])))))
       @ [Turn ''user'' content]"
    by (rule completion_run)
  define ys where "ys = rev (sort_key cm_createdAt
           (filter (\<lambda>m. cm_conversationId m = cv_id conv) (chatMessages w @ [um])))"
  define history where "history = take 5 ys"
  have q: "request = SystemPrompt (findProfile userId w) # map formatTurn history
                   @ [Turn ''user'' content]"
    using e(4) by (simp add: history_def ys_def)
  have sw: "sorted_wrt (\<lambda>a b. cm_createdAt b \<le> cm_createdAt a) ys"
    unfolding ys_def by (rule newest_first_sorted)
  have my: "mset ys = mset (filter (\<lambda>m. cm_conversationId m = cv_id conv) (chatMessages w @ [um]))"
    unfolding ys_def by simp
  have ms: "mset history
         \<subseteq># mset (filter (\<lambda>m. cm_conversationId m = cv_id conv) (chatMessages w @ [um]))"
    unfolding history_def my[symmetric] by (rule mset_take_subset)
  have ly: "length ys = length (filter (\<lambda>m. cm_conversationId m = cv_id conv) (chatMessages w @ [um]))"
    unfolding ys_def by simp
  have ln: "length history
         = min 5 (length (filter (\<lambda>m. cm_conversationId m = cv_id conv) (chatMessages w @ [um])))"
    unfolding history_def by (simp add: ly min.commute)
  have sy: "set ys = {m \<in> set (chatMessages w @ [um]). cm_conversationId m = cv_id conv}"
    by (auto simp: ys_def)
  have top: "cm_createdAt m \<le> cm_createdAt h"
    if "h \<in> set history" "m \<in> set (chatMessages w @ [um])"
      "cm_conversationId m = cv_id conv" "m \<notin> set history" for h m
    using taken_dominate_rest[OF sw, of h 5 m] that sy by (simp add: history_def)
  have "rq_content req = Some content
     \<and> r = ChatReply conv um jm md
     \<and> chatMessages w' = chatMessages w @ [um, jm]
     \<and> request = SystemPrompt (findProfile userId w) # map formatTurn history
                   @ [Turn ''user'' content]
     \<and> mset history
         \<subseteq># mset (filter (\<lambda>m. cm_conversationId m = cv_id conv) (chatMessages w @ [um]))
     \<and> length history
         = min 5 (length (filter (\<lambda>m. cm_conversationId m = cv_id conv) (chatMessages w @ [um])))
     \<and> (\<forall>h \<in> set history. \<forall>m \<in> set (chatMessages w @ [um]).
           cm_conversationId m = cv_id conv \<and> m \<notin> set history \<longrightarrow>
           cm_createdAt m \<le> cm_createdAt h)
     \<and> (\<forall>m \<in> set history. \<exists>text.
           formatTurn m = Turn (if cm_sender m = USER then ''user'' else ''assistant'') text
           \<and> length text \<le> 1003
           \<and> text = (if length (cm_content m) > 1000 then take 1000 (cm_content m) @ ''...''
                     else cm_content m))"
    using e(1,2,3) q ms ln top formatTurn_text by blast
  then show ?thesis by blast
qed

text \<open>The run on the sample conversation, with the request as it is sent.\<close>

lemma followUp_run_calls:
  "completionCalls (snd (sendMessage provider sampleEnvironment 1 followUp historyWorld))
     = completionCalls historyWorld @
       [ [SystemPrompt None, Turn ''user'' ''And then?'', Turn ''assistant'' ''Tell me more.'',
         Turn ''user'' (replicate 1000 CHR ''a'' @ ''...''), Turn ''user'' ''And then?'']]"
  by (cases "provider [SystemPrompt None, Turn ''user'' ''And then?'',
         Turn ''assistant'' ''Tell me more.'',
         Turn ''user'' (replicate 1000 CHR ''a'' @ ''...''), Turn ''user'' ''And then?'']")
     (simp_all add: run_eval followUp_def historyWorld_def findConversation_def)

text \<open>
  \<^bold>\<open>C8.\<close> (As the code has it.) The history sent to the completion
  provider is made of the five most recent messages of the conversation, fewer when it has
  fewer, of either sender, each with the role of its sender; each content longer than 1000
  characters is cut to its first 1000 characters followed by three dots, so that no content
  is longer than 1003 characters. The order of the turns is not part of the statement.
\<close>
theorem history_sent_recent_truncated:
  assumes "sendMessage provider env userId req w = (r, w')"
    and "completionCalls w' = completionCalls w @ [request]"
  shows "\<exists>content conv um jm md history.
       rq_content req = Some content
     \<and> r = ChatReply conv um jm md
     \<and> chatMessages w' = chatMessages w @ [um, jm]
     \<and> request = SystemPrompt (findProfile userId w) # map formatTurn history
                   @ [Turn ''user'' content]
     \<and> mset history
         \<subseteq># mset (filter (\<lambda>m. cm_conversationId m = cv_id conv) (chatMessages w @ [um]))
     \<and> length history
         = min 5 (length (filter (\<lambda>m. cm_conversationId m = cv_id conv) (chatMessages w @ [um])))
     \<and> (\<forall>h \<in> set history. \<forall>m \<in> set (chatMessages w @ [um]).
           cm_conversationId m = cv_id conv \<and> m \<notin> set history \<longrightarrow>
           cm_createdAt m \<le> cm_createdAt h)
     \<and> (\<forall>m \<in> set history. \<exists>text.
           formatTurn m = Turn (if cm_sender m = USER then ''user'' else ''assistant'') text
           \<and> length text \<le> 1003
           \<and> text = (if length (cm_content m) > 1000 then take 1000 (cm_content m) @ ''...''
                     else cm_content m))"
  using assms by (rule history_effects)

theorem history_sent_recent_truncated_witness:
  "completionCalls (snd (sendMessage timeoutProvider sampleEnvironment 1 followUp historyWorld))
     = completionCalls historyWorld @
       [ [SystemPrompt None, Turn ''user'' ''And then?'', Turn ''assistant'' ''Tell me more.'',
         Turn ''user'' (replicate 1000 CHR ''a'' @ ''...''), Turn ''user'' ''And then?'']]
   \<and> (\<exists>conv um jm md history.
         fst (sendMessage timeoutProvider sampleEnvironment 1 followUp historyWorld)
           = ChatReply conv um jm md
       \<and> [SystemPrompt None, Turn ''user'' ''And then?'', Turn ''assistant'' ''Tell me more.'',
           Turn ''user'' (replicate 1000 CHR ''a'' @ ''...''), Turn ''user'' ''And then?'']
          = SystemPrompt (findProfile 1 historyWorld) # map formatTurn history
              @ [Turn ''user'' ''And then?'']
       \<and> mset history
           \<subseteq># mset (filter (\<lambda>m. cm_conversationId m = cv_id conv)
                       (chatMessages historyWorld @ [um]))
       \<and> length history
           = min 5 (length (filter (\<lambda>m. cm_conversationId m = cv_id conv)
                       (chatMessages historyWorld @ [um]))))"
proof -
  have s: "sendMessage timeoutProvider sampleEnvironment 1 followUp historyWorld
    = (fst (sendMessage timeoutProvider sampleEnvironment 1 followUp historyWorld),
       snd (sendMessage timeoutProvider sampleEnvironment 1 followUp historyWorld))"
    by simp
  note c = followUp_run_calls[of timeoutProvider]
  have q: "rq_content followUp = Some ''And then?''" by (simp add: followUp_def)
  from history_sent_recent_truncated[OF s c] obtain content conv um jm md history where
    h: "rq_content followUp = Some content"
      "fst (sendMessage timeoutProvider sampleEnvironment 1 followUp historyWorld)
         = ChatReply conv um jm md"
      "[SystemPrompt None, Turn ''user'' ''And then?'', Turn ''assistant'' ''Tell me more.'',
        Turn ''user'' (replicate 1000 CHR ''a'' @ ''...''), Turn ''user'' ''And then?'']
         = SystemPrompt (findProfile 1 historyWorld) # map formatTurn history
             @ [Turn ''user'' content]"
      "mset history
           \<subseteq># mset (filter (\<lambda>m. cm_conversationId m = cv_id conv)
                       (chatMessages historyWorld @ [um]))"
      "length history
           = min 5 (length (filter (\<lambda>m. cm_conversationId m = cv_id conv)
                       (chatMessages historyWorld @ [um])))"
    by blast
  from h(1) q have "content = ''And then?''" by simp
  with h c show ?thesis by blast
qed

text \<open>
  In the sample conversation the earlier message of 1001 characters is sent to the provider
  as 1003 characters, above the ceiling of 1000.
\<close>

theorem history_truncation_counterexample:
  "map cm_content (chatMessages historyWorld) = [replicate 1001 CHR ''a'', ''Tell me more.'']
   \<and> Turn ''user'' (replicate 1000 CHR ''a'' @ ''...'')
       \<in> set (last (completionCalls
             (snd (sendMessage timeoutProvider sampleEnvironment 1 followUp historyWorld))))
   \<and> length (replicate 1000 CHR ''a'' @ ''...'') = 1003
   \<and> \<not> length (replicate 1000 CHR ''a'' @ ''...'') \<le> 1000"
  using followUp_run_calls[of timeoutProvider] by (simp add: historyWorld_def)

end
